theory Spec2Isabelle
  imports Complex_Main "HOL-Library.Sublist"
begin

section \<open>Python numbers\<close>

text \<open>
  The handlers compute with Python floats (and ints that are converted on the way). A float is
  modelled as a real number or one of the three special values; the source tests for the
  special values itself (\<^verbatim>\<open>np.isnan\<close>, \<^verbatim>\<open>np.isinf\<close>, \<^verbatim>\<open>float('inf')\<close> as a band bound), so
  they are part of the model. The rounding error of binary floating point is not modelled:
  an arithmetic operation on two finite values gives the exact real result, where the code
  gets the nearest double. The only overflow that is modelled is the one of numpy's \<^verbatim>\<open>round\<close>
  (see \<open>np_round\<close>), which the prediction path can reach with a finite prediction.
\<close>

datatype pyfloat = Num real | PInf | NInf | NaN

text \<open>Comparisons as IEEE 754 and Python define them: every comparison with NaN is false.\<close>

fun py_le :: "pyfloat \<Rightarrow> pyfloat \<Rightarrow> bool" where
  "py_le NaN _ = False"
| "py_le _ NaN = False"
| "py_le NInf _ = True"
| "py_le _ PInf = True"
| "py_le (Num a) (Num b) = (a \<le> b)"
| "py_le PInf _ = False"
| "py_le (Num a) NInf = False"

fun py_lt :: "pyfloat \<Rightarrow> pyfloat \<Rightarrow> bool" where
  "py_lt NaN _ = False"
| "py_lt _ NaN = False"
| "py_lt (Num a) (Num b) = (a < b)"
| "py_lt NInf NInf = False"
| "py_lt NInf _ = True"
| "py_lt PInf _ = False"
| "py_lt (Num a) PInf = True"
| "py_lt (Num a) NInf = False"

fun isnan :: "pyfloat \<Rightarrow> bool" where
  "isnan NaN = True"
| "isnan _ = False"

fun isinf :: "pyfloat \<Rightarrow> bool" where
  "isinf PInf = True"
| "isinf NInf = True"
| "isinf _ = False"

fun py_neg :: "pyfloat \<Rightarrow> pyfloat" where
  "py_neg (Num a) = Num (- a)"
| "py_neg PInf = NInf"
| "py_neg NInf = PInf"
| "py_neg NaN = NaN"

fun py_add :: "pyfloat \<Rightarrow> pyfloat \<Rightarrow> pyfloat" where
  "py_add NaN _ = NaN"
| "py_add _ NaN = NaN"
| "py_add (Num a) (Num b) = Num (a + b)"
| "py_add PInf NInf = NaN"
| "py_add NInf PInf = NaN"
| "py_add PInf _ = PInf"
| "py_add NInf _ = NInf"
| "py_add (Num a) b = b"

definition py_sub :: "pyfloat \<Rightarrow> pyfloat \<Rightarrow> pyfloat" where
  "py_sub a b = py_add a (py_neg b)"

text \<open>The sign of a product with an infinity; infinity times zero is NaN.\<close>

definition inf_times :: "bool \<Rightarrow> real \<Rightarrow> pyfloat" where
  "inf_times positive a =
     (if a = 0 then NaN else if (0 < a) = positive then PInf else NInf)"

fun py_mul :: "pyfloat \<Rightarrow> pyfloat \<Rightarrow> pyfloat" where
  "py_mul NaN _ = NaN"
| "py_mul _ NaN = NaN"
| "py_mul (Num a) (Num b) = Num (a * b)"
| "py_mul PInf PInf = PInf"
| "py_mul NInf NInf = PInf"
| "py_mul PInf NInf = NInf"
| "py_mul NInf PInf = NInf"
| "py_mul PInf (Num b) = inf_times True b"
| "py_mul NInf (Num b) = inf_times False b"
| "py_mul (Num a) PInf = inf_times True a"
| "py_mul (Num a) NInf = inf_times False a"

fun py_abs :: "pyfloat \<Rightarrow> pyfloat" where
  "py_abs (Num a) = Num \<bar>a\<bar>"
| "py_abs PInf = PInf"
| "py_abs NInf = PInf"
| "py_abs NaN = NaN"

text \<open>
  The messages of the validator are f-strings; a message is modelled by the values it is
  formatted from: the feature that is missing, or the feature, its value and the two bounds
  printed in the message. The exceptions the prediction path can raise come next.
  \<^verbatim>\<open>ValueError\<close> is raised at four places of the handlers with four messages, one
  constructor each; \<^verbatim>\<open>ArtifactError\<close> stands for whatever the artifact's own \<^verbatim>\<open>predict\<close> raises.
\<close>

datatype violation =
    Falta_la_variable string
  | Fuera_del_rango_valido string pyfloat pyfloat pyfloat
  | Fuera_del_rango_extendido string pyfloat pyfloat pyfloat

datatype py_error =
    RuntimeError_modelo_no_cargado
  | ValueError_inputs_invalidos "violation list"
  | ValueError_datos_nan_o_infinito
  | ValueError_datos_negativos
  | ValueError_prediccion_invalida
  | KeyError string
  | ZeroDivisionError
  | ArtifactError string

text \<open>
  Python's \<^verbatim>\<open>a / b\<close> on floats: a zero divisor raises \<^verbatim>\<open>ZeroDivisionError\<close> whatever the
  dividend is; the other cases follow IEEE 754, the quotient of two finite values being the
  exact real quotient here and the double nearest to it in the code.
\<close>

fun py_truediv :: "pyfloat \<Rightarrow> pyfloat \<Rightarrow> py_error + pyfloat" where
  "py_truediv a (Num b) =
     (if b = 0 then Inl ZeroDivisionError
      else case a of
             Num x \<Rightarrow> Inr (Num (x / b))
           | PInf \<Rightarrow> Inr (inf_times True b)
           | NInf \<Rightarrow> Inr (inf_times False b)
           | NaN \<Rightarrow> Inr NaN)"
| "py_truediv NaN _ = Inr NaN"
| "py_truediv _ NaN = Inr NaN"
| "py_truediv (Num a) _ = Inr (Num 0)"
| "py_truediv _ _ = Inr NaN"

text \<open>
  Python's two-argument \<^verbatim>\<open>min\<close> and \<^verbatim>\<open>max\<close> keep the first argument unless the second one
  is strictly smaller (larger); with a NaN the comparison is false and the first is kept.
\<close>

definition py_min :: "pyfloat \<Rightarrow> pyfloat \<Rightarrow> pyfloat" where
  "py_min a b = (if py_lt b a then b else a)"

definition py_max :: "pyfloat \<Rightarrow> pyfloat \<Rightarrow> pyfloat" where
  "py_max a b = (if py_lt a b then b else a)"

text \<open>
  The built-in \<^verbatim>\<open>round(x, n)\<close> of a Python float: the multiple of \<open>10\<^sup>-\<^sup>n\<close> nearest to \<open>x\<close>,
  a tie going to the even multiple; NaN and the infinities are returned unchanged. The code
  rounds the double that \<open>x\<close> is and returns the double nearest to the decimal, so its result
  can differ from this one in the last digit when the real \<open>x\<close> is on a tie or next to one,
  and by the representation error of the decimal. The theorems below therefore bound the
  rounded fields and never fix their digits.
\<close>

definition round_half_even :: "real \<Rightarrow> int" where
  "round_half_even x =
     (let f = \<lfloor>x\<rfloor>; d = x - of_int f in
      if d < 1 / 2 then f else if 1 / 2 < d then f + 1 else if even f then f else f + 1)"

fun py_round :: "pyfloat \<Rightarrow> nat \<Rightarrow> pyfloat" where
  "py_round (Num x) n = Num (of_int (round_half_even (x * 10 ^ n)) / 10 ^ n)"
| "py_round v n = v"

text \<open>
  \<^verbatim>\<open>round\<close> of a numpy \<^verbatim>\<open>float64\<close>, which is what the artifact's prediction is: numpy
  multiplies by \<open>10\<^sup>n\<close>, rounds to the nearest integer and divides again, all in binary64. The
  product overflows to an infinity when its exact value reaches \<open>2\<^sup>1\<^sup>0\<^sup>2\<^sup>4 - 2\<^sup>9\<^sup>7\<^sup>0\<close>, the
  midpoint above the largest double; the infinity then is the result. Below that the rounding
  errors of the product and of the quotient are not modelled.
\<close>

definition overflow_threshold :: real where
  "overflow_threshold = 2 ^ 1024 - 2 ^ 970"

fun np_round :: "pyfloat \<Rightarrow> nat \<Rightarrow> pyfloat" where
  "np_round (Num x) n =
     (if overflow_threshold \<le> x * 10 ^ n then PInf
      else if x * 10 ^ n \<le> - overflow_threshold then NInf
      else Num (of_int (round_half_even (x * 10 ^ n)) / 10 ^ n))"
| "np_round v n = v"

section \<open>The NEC classification\<close>

text \<open>
  \<^verbatim>\<open>NEC_CLASSIFICATION\<close> is a dict from a pair of bounds to a triple of strings; the loop of
  \<^verbatim>\<open>_classify_nec\<close> visits its items in insertion order, so it is an association list here.
  The two letters outside ASCII are written as their UTF-8 bytes.
\<close>

type_synonym nec_triple = "string \<times> string \<times> string"

type_synonym nec_table = "((pyfloat \<times> pyfloat) \<times> nec_triple) list"

definition uso_estructural_comun :: string where
  "uso_estructural_comun = ''Uso estructural com'' @ [CHR 0xC3, CHR 0xBA] @ ''n''"

definition valor_fuera_de_rangos :: string where
  "valor_fuera_de_rangos = ''Valor fuera de rangos est'' @ [CHR 0xC3, CHR 0xA1] @ ''ndar''"

definition baja_resistencia :: nec_triple where
  "baja_resistencia = (''Baja Resistencia'', ''#ef4444'', ''Uso estructural limitado'')"

definition resistencia_normal :: nec_triple where
  "resistencia_normal = (''Resistencia Normal'', ''#f97316'', uso_estructural_comun)"

definition alta_resistencia :: nec_triple where
  "alta_resistencia = (''Alta Resistencia'', ''#22c55e'', ''Estructuras exigentes'')"

definition ultra_alta_resistencia :: nec_triple where
  "ultra_alta_resistencia = (''Ultra Alta Resistencia'', ''#3b82f6'', ''Estructuras especiales'')"

text \<open>The table of \<^verbatim>\<open>model_handler.py\<close>.\<close>

definition NEC_CLASSIFICATION :: nec_table where
  "NEC_CLASSIFICATION =
    [((Num 0, Num 210), baja_resistencia),
     ((Num 210, Num 280), resistencia_normal),
     ((Num 280, Num 420), alta_resistencia),
     ((Num 420, PInf), ultra_alta_resistencia)]"

text \<open>The table of \<^verbatim>\<open>model_handler_fixed.py\<close>: the first boundary is 140 instead of 210.\<close>

definition NEC_CLASSIFICATION_fixed :: nec_table where
  "NEC_CLASSIFICATION_fixed =
    [((Num 0, Num 140), baja_resistencia),
     ((Num 140, Num 280), resistencia_normal),
     ((Num 280, Num 420), alta_resistencia),
     ((Num 420, PInf), ultra_alta_resistencia)]"

definition sin_clasificar :: nec_triple where
  "sin_clasificar = (''Sin Clasificar'', ''#6b7280'', valor_fuera_de_rangos)"

text \<open>
  The loop of \<^verbatim>\<open>_classify_nec\<close>, the same in both handlers: the first item whose bounds satisfy
  \<^verbatim>\<open>min_val <= strength < max_val\<close> is returned, and the fallback triple after the loop.
\<close>

definition in_band :: "pyfloat \<times> pyfloat \<Rightarrow> pyfloat \<Rightarrow> bool" where
  "in_band b strength = (py_le (fst b) strength \<and> py_lt strength (snd b))"

fun classify_items :: "nec_table \<Rightarrow> pyfloat \<Rightarrow> nec_triple" where
  "classify_items [] strength = sin_clasificar"
| "classify_items ((b, t) # items) strength =
     (if in_band b strength then t else classify_items items strength)"

definition classify_nec :: "pyfloat \<Rightarrow> nec_triple" where
  "classify_nec strength = classify_items NEC_CLASSIFICATION strength"

definition classify_nec_fixed :: "pyfloat \<Rightarrow> nec_triple" where
  "classify_nec_fixed strength = classify_items NEC_CLASSIFICATION_fixed strength"

text \<open>\<^verbatim>\<open>get_nec_color\<close> of \<^verbatim>\<open>utils.py\<close>: an if-chain on its own thresholds.\<close>

definition get_nec_color :: "pyfloat \<Rightarrow> string" where
  "get_nec_color resistance =
     (if py_lt resistance (Num 210) then ''#ef4444''
      else if py_lt resistance (Num 280) then ''#f97316''
      else if py_lt resistance (Num 420) then ''#22c55e''
      else ''#3b82f6'')"

definition color_of :: "nec_triple \<Rightarrow> string" where
  "color_of t = fst (snd t)"

section \<open>Mix designs, ranges and the handler\<close>

text \<open>
  The \<^verbatim>\<open>inputs\<close> dict of the caller is an association list in insertion order, which is the
  order in which \<^verbatim>\<open>inputs.items()\<close> is visited. A dict has no duplicate keys; \<open>map_of\<close>
  looks a key up at its first pair, and no theorem below depends on which pair that is.
\<close>

type_synonym mix_design = "(string \<times> pyfloat) list"

definition contains :: "mix_design \<Rightarrow> string \<Rightarrow> bool" where
  "contains inputs feature = (map_of inputs feature \<noteq> None)"

definition getitem :: "mix_design \<Rightarrow> string \<Rightarrow> py_error + pyfloat" where
  "getitem inputs key = (case map_of inputs key of None \<Rightarrow> Inl (KeyError key) | Some v \<Rightarrow> Inr v)"

text \<open>\<^verbatim>\<open>VALID_RANGES\<close> of \<^verbatim>\<open>model_handler.py\<close> and of \<^verbatim>\<open>model_handler_fixed.py\<close>.\<close>

definition VALID_RANGES :: "(string \<times> pyfloat \<times> pyfloat) list" where
  "VALID_RANGES =
    [(''Cemento_kg_m3'', (Num 150, Num 500)),
     (''Escoria_Alto_Horno_kg_m3'', (Num 0, Num 300)),
     (''Ceniza_Volante_kg_m3'', (Num 0, Num 200)),
     (''Agua_kg_m3'', (Num 130, Num 220)),
     (''Superplastificante_kg_m3'', (Num 0, Num 25)),
     (''Agregado_Grueso_kg_m3'', (Num 850, Num 1100)),
     (''Agregado_Fino_kg_m3'', (Num 650, Num 900)),
     (''Edad_dias'', (Num 1, Num 365))]"

definition VALID_RANGES_fixed :: "(string \<times> pyfloat \<times> pyfloat) list" where
  "VALID_RANGES_fixed =
    [(''Cemento_kg_m3'', (Num 102, Num 540)),
     (''Escoria_Alto_Horno_kg_m3'', (Num 0, Num 359)),
     (''Ceniza_Volante_kg_m3'', (Num 0, Num 200)),
     (''Agua_kg_m3'', (Num 122, Num 247)),
     (''Superplastificante_kg_m3'', (Num 0, Num 32)),
     (''Agregado_Grueso_kg_m3'', (Num 801, Num 1145)),
     (''Agregado_Fino_kg_m3'', (Num 594, Num 993)),
     (''Edad_dias'', (Num 1, Num 365))]"

text \<open>
  The feature names: \<^verbatim>\<open>model_handler_fixed.py\<close> assigns this list in \<^verbatim>\<open>__init__\<close>;
  \<^verbatim>\<open>model_handler.py\<close> reads its list from the metadata file
  (\<^verbatim>\<open>metadata['modelo_info']['variables_entrada']\<close>), so there it is a field of the handler.
\<close>

definition feature_names_fixed :: "string list" where
  "feature_names_fixed =
    [''Cemento_kg_m3'', ''Escoria_Alto_Horno_kg_m3'', ''Ceniza_Volante_kg_m3'', ''Agua_kg_m3'',
     ''Superplastificante_kg_m3'', ''Agregado_Grueso_kg_m3'', ''Agregado_Fino_kg_m3'',
     ''Edad_dias'']"

text \<open>
  The state of a \<^verbatim>\<open>ConcreteModelHandler\<close> that the prediction path reads. The artifact is
  opaque: \<open>model_predict\<close> is \<^verbatim>\<open>self.model.predict(X)[0]\<close> on the feature vector, a value or
  an exception. \<open>estabilidad\<close> is \<^verbatim>\<open>self.metadata['metricas']['estabilidad']\<close>, \<open>None\<close> when the
  key is absent.
\<close>

record handler_fixed =
  is_loaded :: bool
  model_predict :: "pyfloat list \<Rightarrow> py_error + pyfloat"
  estabilidad :: "pyfloat option"

record handler = handler_fixed +
  feature_names :: "string list"

datatype log_record =
    Warning_inputs_con_advertencias "violation list"
  | Warning_prediccion_fuera_de_rango pyfloat
  | Warning_prediccion_negativa_corregida pyfloat
  | Warning_division_por_cero
  | Info_prediccion_exitosa pyfloat
  | Error_en_prediccion py_error

record prediction_result =
  resistencia_predicha_kg_cm2 :: pyfloat
  relacion_agua_cemento :: pyfloat
  total_cementicios_kg_m3 :: pyfloat
  clasificacion_nec :: string
  color_clasificacion :: string
  descripcion_nec :: string
  confianza_prediccion :: pyfloat
  edad_ensayo_dias :: pyfloat
  timestamp :: string

section \<open>The validator\<close>

text \<open>
  The two loops of \<^verbatim>\<open>validate_inputs\<close>, each appending to \<^verbatim>\<open>errors\<close>: the first runs over
  \<^verbatim>\<open>self.feature_names\<close>, the second over \<^verbatim>\<open>inputs.items()\<close>.
\<close>

fun check_missing :: "string list \<Rightarrow> mix_design \<Rightarrow> violation list \<Rightarrow> violation list" where
  "check_missing [] inputs errors = errors"
| "check_missing (feature # features) inputs errors =
     check_missing features inputs
       (if \<not> contains inputs feature then errors @ [Falta_la_variable feature] else errors)"

fun check_ranges ::
  "(string \<times> pyfloat \<times> pyfloat) list \<Rightarrow> mix_design \<Rightarrow> violation list \<Rightarrow> violation list" where
  "check_ranges ranges [] errors = errors"
| "check_ranges ranges ((feature, v) # items) errors =
     check_ranges ranges items
       (case map_of ranges feature of
          None \<Rightarrow> errors
        | Some (min_val, max_val) \<Rightarrow>
            if \<not> (py_le min_val v \<and> py_le v max_val)
            then errors @ [Fuera_del_rango_valido feature v min_val max_val]
            else errors)"

definition validate_inputs :: "handler \<Rightarrow> mix_design \<Rightarrow> bool \<times> violation list" where
  "validate_inputs h inputs =
     (let errors = check_ranges VALID_RANGES inputs (check_missing (feature_names h) inputs [])
      in (length errors = 0, errors))"

text \<open>
  The second loop of \<^verbatim>\<open>model_handler_fixed.py\<close> widens each range by a tenth of its width,
  the lower end not below 0.
\<close>

fun check_ranges_fixed ::
  "(string \<times> pyfloat \<times> pyfloat) list \<Rightarrow> mix_design \<Rightarrow> violation list \<Rightarrow> violation list" where
  "check_ranges_fixed ranges [] errors = errors"
| "check_ranges_fixed ranges ((feature, v) # items) errors =
     check_ranges_fixed ranges items
       (case map_of ranges feature of
          None \<Rightarrow> errors
        | Some (min_val, max_val) \<Rightarrow>
            (let margin = py_mul (py_sub max_val min_val) (Num (1 / 10));
                 extended_min = py_max (Num 0) (py_sub min_val margin);
                 extended_max = py_add max_val margin
             in if \<not> (py_le extended_min v \<and> py_le v extended_max)
                then errors @ [Fuera_del_rango_extendido feature v extended_min extended_max]
                else errors))"

definition validate_inputs_fixed :: "mix_design \<Rightarrow> bool \<times> violation list" where
  "validate_inputs_fixed inputs =
     (let errors = check_ranges_fixed VALID_RANGES_fixed inputs
                     (check_missing feature_names_fixed inputs [])
      in (length errors = 0, errors))"

text \<open>
  What it means for a list of violations to follow the canonical order of the feature names:
  the positions of their features in that list never decrease.
\<close>

fun violation_feature :: "violation \<Rightarrow> string" where
  "violation_feature (Falta_la_variable f) = f"
| "violation_feature (Fuera_del_rango_valido f v lo hi) = f"
| "violation_feature (Fuera_del_rango_extendido f v lo hi) = f"

fun index_of :: "'a list \<Rightarrow> 'a \<Rightarrow> nat" where
  "index_of [] x = 0"
| "index_of (y # ys) x = (if x = y then 0 else Suc (index_of ys x))"

definition in_canonical_order :: "string list \<Rightarrow> violation list \<Rightarrow> bool" where
  "in_canonical_order features errors =
     sorted (map (\<lambda>e. index_of features (violation_feature e)) errors)"

section \<open>The predictor\<close>

text \<open>
  \<^verbatim>\<open>[inputs[feature] for feature in self.feature_names]\<close>: the first missing key raises
  \<^verbatim>\<open>KeyError\<close>.
\<close>

fun feature_values :: "mix_design \<Rightarrow> string list \<Rightarrow> py_error + pyfloat list" where
  "feature_values inputs [] = Inr []"
| "feature_values inputs (feature # features) =
     (case getitem inputs feature of
        Inl e \<Rightarrow> Inl e
      | Inr v \<Rightarrow>
          (case feature_values inputs features of
             Inl e \<Rightarrow> Inl e
           | Inr vs \<Rightarrow> Inr (v # vs)))"

text \<open>
  \<^verbatim>\<open>inputs['Agua_kg_m3'] / inputs['Cemento_kg_m3']\<close>, the expression both handlers compute the
  ratio with: the two lookups from left to right, then the division.
\<close>

definition water_cement_ratio :: "mix_design \<Rightarrow> py_error + pyfloat" where
  "water_cement_ratio inputs =
     (case getitem inputs ''Agua_kg_m3'' of
        Inl e \<Rightarrow> Inl e
      | Inr agua \<Rightarrow>
          (case getitem inputs ''Cemento_kg_m3'' of
             Inl e \<Rightarrow> Inl e
           | Inr cemento \<Rightarrow> py_truediv agua cemento))"

definition total_cementitious :: "mix_design \<Rightarrow> py_error + pyfloat" where
  "total_cementitious inputs =
     (case getitem inputs ''Cemento_kg_m3'' of
        Inl e \<Rightarrow> Inl e
      | Inr cemento \<Rightarrow>
          (case getitem inputs ''Escoria_Alto_Horno_kg_m3'' of
             Inl e \<Rightarrow> Inl e
           | Inr escoria \<Rightarrow>
               (case getitem inputs ''Ceniza_Volante_kg_m3'' of
                  Inl e \<Rightarrow> Inl e
                | Inr ceniza \<Rightarrow> Inr (py_add (py_add cemento escoria) ceniza))))"

text \<open>The confidence of \<^verbatim>\<open>model_handler.py\<close> and of \<^verbatim>\<open>model_handler_fixed.py\<close>.\<close>

definition confidence :: "pyfloat \<Rightarrow> pyfloat" where
  "confidence s = py_max (Num (6 / 10)) (py_min (Num (95 / 100)) (py_sub (Num 1) (py_mul s (Num 10))))"

definition confidence_fixed :: "pyfloat \<Rightarrow> pyfloat" where
  "confidence_fixed s = py_max (Num (7 / 10)) (py_min (Num (95 / 100)) (py_sub (Num 1) s))"

text \<open>
  The tail that both handlers share, from the ratio to the \<^verbatim>\<open>result\<close> dict, in the order in
  which the source evaluates it. \<open>now\<close> is what \<^verbatim>\<open>datetime.now().isoformat()\<close> returns at this
  call: the clock is an input of the model. The prediction is a numpy \<^verbatim>\<open>float64\<close> and is
  rounded by numpy; the ratio, the total and the confidence are Python floats.
\<close>

definition build_result ::
  "(pyfloat \<Rightarrow> nec_triple) \<Rightarrow> (pyfloat \<Rightarrow> pyfloat) \<Rightarrow> pyfloat option \<Rightarrow> mix_design \<Rightarrow>
     pyfloat \<Rightarrow> string \<Rightarrow> py_error + prediction_result" where
  "build_result classify conf stability inputs prediction now =
     (case water_cement_ratio inputs of
        Inl e \<Rightarrow> Inl e
      | Inr ratio \<Rightarrow>
          (case total_cementitious inputs of
             Inl e \<Rightarrow> Inl e
           | Inr cementicios \<Rightarrow>
               (case classify prediction of
                  (nec_class, nec_color, nec_description) \<Rightarrow>
                    (case stability of
                       None \<Rightarrow> Inl (KeyError ''estabilidad'')
                     | Some s \<Rightarrow>
                         (case getitem inputs ''Edad_dias'' of
                            Inl e \<Rightarrow> Inl e
                          | Inr edad \<Rightarrow>
                              Inr \<lparr>resistencia_predicha_kg_cm2 = np_round prediction 2,
                                   relacion_agua_cemento = py_round ratio 3,
                                   total_cementicios_kg_m3 = py_round cementicios 1,
                                   clasificacion_nec = nec_class,
                                   color_clasificacion = nec_color,
                                   descripcion_nec = nec_description,
                                   confianza_prediccion = py_round (conf s) 3,
                                   edad_ensayo_dias = edad,
                                   timestamp = now\<rparr>)))))"

text \<open>
  The body of the \<^verbatim>\<open>try\<close> of \<^verbatim>\<open>predict_strength\<close> in \<^verbatim>\<open>model_handler.py\<close>: what it logs and
  what it returns or raises.
\<close>

definition predict_try :: "handler \<Rightarrow> mix_design \<Rightarrow> string \<Rightarrow> log_record list \<times> (py_error + prediction_result)" where
  "predict_try h inputs now =
     (case feature_values inputs (feature_names h) of
        Inl e \<Rightarrow> ([], Inl e)
      | Inr X \<Rightarrow>
          if list_ex isnan X \<or> list_ex isinf X then ([], Inl ValueError_datos_nan_o_infinito)
          else if list_ex (\<lambda>x. py_lt x (Num 0)) X then ([], Inl ValueError_datos_negativos)
          else
            (case model_predict h X of
               Inl e \<Rightarrow> ([], Inl e)
             | Inr prediction \<Rightarrow>
                 if isnan prediction \<or> isinf prediction then ([], Inl ValueError_prediccion_invalida)
                 else
                   (let logs = (if \<not> (py_le (Num 5) prediction \<and> py_le prediction (Num 1000))
                                then [Warning_prediccion_fuera_de_rango prediction] else [])
                    in case build_result classify_nec confidence (estabilidad h) inputs prediction now of
                         Inl e \<Rightarrow> (logs, Inl e)
                       | Inr result \<Rightarrow> (logs @ [Info_prediccion_exitosa prediction], Inr result))))"

text \<open>
  \<^verbatim>\<open>predict_strength\<close> of \<^verbatim>\<open>model_handler.py\<close>: invalid inputs raise before the \<^verbatim>\<open>try\<close>; an
  exception inside it is logged and raised again.
\<close>

definition reraise ::
  "log_record list \<times> (py_error + prediction_result) \<Rightarrow> log_record list \<times> (py_error + prediction_result)" where
  "reraise out =
     (case snd out of
        Inl e \<Rightarrow> (fst out @ [Error_en_prediccion e], Inl e)
      | Inr result \<Rightarrow> out)"

definition predict_strength :: "handler \<Rightarrow> mix_design \<Rightarrow> string \<Rightarrow> log_record list \<times> (py_error + prediction_result)" where
  "predict_strength h inputs now =
     (if \<not> is_loaded h then ([], Inl RuntimeError_modelo_no_cargado)
      else case validate_inputs h inputs of
             (is_valid, errors) \<Rightarrow>
               if \<not> is_valid then ([], Inl (ValueError_inputs_invalidos errors))
               else reraise (predict_try h inputs now))"

text \<open>
  The same for \<^verbatim>\<open>model_handler_fixed.py\<close>: no check of the feature vector, a negative
  prediction replaced by its absolute value, and invalid inputs only logged.
\<close>

definition predict_try_fixed :: "handler_fixed \<Rightarrow> mix_design \<Rightarrow> string \<Rightarrow> log_record list \<times> (py_error + prediction_result)" where
  "predict_try_fixed h inputs now =
     (case feature_values inputs feature_names_fixed of
        Inl e \<Rightarrow> ([], Inl e)
      | Inr input_array \<Rightarrow>
          (case model_predict h input_array of
             Inl e \<Rightarrow> ([], Inl e)
           | Inr raw \<Rightarrow>
               if isnan raw \<or> isinf raw then ([], Inl ValueError_prediccion_invalida)
               else
                 (let prediction = (if py_lt raw (Num 0) then py_abs raw else raw);
                      logs = (if py_lt raw (Num 0)
                              then [Warning_prediccion_negativa_corregida prediction] else [])
                  in case build_result classify_nec_fixed confidence_fixed (estabilidad h) inputs prediction now of
                       Inl e \<Rightarrow> (logs, Inl e)
                     | Inr result \<Rightarrow> (logs @ [Info_prediccion_exitosa prediction], Inr result))))"

definition predict_strength_fixed :: "handler_fixed \<Rightarrow> mix_design \<Rightarrow> string \<Rightarrow> log_record list \<times> (py_error + prediction_result)" where
  "predict_strength_fixed h inputs now =
     (if \<not> is_loaded h then ([], Inl RuntimeError_modelo_no_cargado)
      else case validate_inputs_fixed inputs of
             (is_valid, errors) \<Rightarrow>
               (let logs = (if \<not> is_valid then [Warning_inputs_con_advertencias errors] else []);
                    out = reraise (predict_try_fixed h inputs now)
                in (logs @ fst out, snd out)))"

text \<open>
  \<^verbatim>\<open>calculate_water_cement_ratio\<close> of \<^verbatim>\<open>utils.py\<close>, which no handler calls: a zero divisor is
  logged and answered with \<^verbatim>\<open>0.0\<close>.
\<close>

definition calculate_water_cement_ratio :: "pyfloat \<Rightarrow> pyfloat \<Rightarrow> log_record list \<times> (py_error + pyfloat)" where
  "calculate_water_cement_ratio water cement =
     (if cement = Num 0 then ([Warning_division_por_cero], Inr (Num 0))
      else ([], py_truediv water cement))"

section \<open>What one item contributes to the list of violations\<close>

text \<open>
  The body of the second loop of each validator, for one item of \<^verbatim>\<open>inputs.items()\<close>: the
  violations it appends. The loops are related to these in the lemmas \<open>check_ranges_eq\<close> and
  \<open>check_ranges_fixed_eq\<close>.
\<close>

definition range_violation :: "(string \<times> pyfloat \<times> pyfloat) list \<Rightarrow> string \<times> pyfloat \<Rightarrow> violation list" where
  "range_violation ranges item =
     (case map_of ranges (fst item) of
        None \<Rightarrow> []
      | Some (min_val, max_val) \<Rightarrow>
          if \<not> (py_le min_val (snd item) \<and> py_le (snd item) max_val)
          then [Fuera_del_rango_valido (fst item) (snd item) min_val max_val]
          else [])"

definition extended_min :: "pyfloat \<Rightarrow> pyfloat \<Rightarrow> pyfloat" where
  "extended_min min_val max_val =
     py_max (Num 0) (py_sub min_val (py_mul (py_sub max_val min_val) (Num (1 / 10))))"

definition extended_max :: "pyfloat \<Rightarrow> pyfloat \<Rightarrow> pyfloat" where
  "extended_max min_val max_val = py_add max_val (py_mul (py_sub max_val min_val) (Num (1 / 10)))"

definition range_violation_fixed ::
  "(string \<times> pyfloat \<times> pyfloat) list \<Rightarrow> string \<times> pyfloat \<Rightarrow> violation list" where
  "range_violation_fixed ranges item =
     (case map_of ranges (fst item) of
        None \<Rightarrow> []
      | Some (min_val, max_val) \<Rightarrow>
          if \<not> (py_le (extended_min min_val max_val) (snd item) \<and>
                 py_le (snd item) (extended_max min_val max_val))
          then [Fuera_del_rango_extendido (fst item) (snd item)
                  (extended_min min_val max_val) (extended_max min_val max_val)]
          else [])"

text \<open>
  The preset \<^verbatim>\<open>"C25 - Estructural"\<close> entered in the reverse order of its fields, with the water
  and the cement out of range.
\<close>

definition mix_reordered :: mix_design where
  "mix_reordered =
    [(''Edad_dias'', Num 28), (''Agregado_Fino_kg_m3'', Num 775),
     (''Agregado_Grueso_kg_m3'', Num 975), (''Superplastificante_kg_m3'', Num 4),
     (''Agua_kg_m3'', Num 300), (''Ceniza_Volante_kg_m3'', Num 20),
     (''Escoria_Alto_Horno_kg_m3'', Num 80), (''Cemento_kg_m3'', Num 600)]"

section \<open>Sample inputs\<close>

text \<open>
  The preset \<^verbatim>\<open>"C25 - Estructural"\<close> of \<^verbatim>\<open>get_preset_mixes\<close>, and a loaded handler whose
  artifact answers every feature vector with \<open>out\<close> and whose metadata records the stability
  \<open>s\<close> (for \<^verbatim>\<open>model_handler.py\<close> also the eight feature names).
\<close>

definition preset_C25 :: mix_design where
  "preset_C25 =
    [(''Cemento_kg_m3'', Num 320), (''Escoria_Alto_Horno_kg_m3'', Num 80),
     (''Ceniza_Volante_kg_m3'', Num 20), (''Agua_kg_m3'', Num 165),
     (''Superplastificante_kg_m3'', Num 4), (''Agregado_Grueso_kg_m3'', Num 975),
     (''Agregado_Fino_kg_m3'', Num 775), (''Edad_dias'', Num 28)]"

definition constant_artifact :: "pyfloat \<Rightarrow> pyfloat \<Rightarrow> handler" where
  "constant_artifact out s =
     \<lparr>is_loaded = True, model_predict = (\<lambda>X. Inr out), estabilidad = Some s,
      feature_names = feature_names_fixed\<rparr>"

definition constant_artifact_fixed :: "pyfloat \<Rightarrow> pyfloat \<Rightarrow> handler_fixed" where
  "constant_artifact_fixed out s =
     \<lparr>is_loaded = True, model_predict = (\<lambda>X. Inr out), estabilidad = Some s\<rparr>"

text \<open>A mix with every field at the lower or the upper bound of \<^verbatim>\<open>VALID_RANGES\<close>.\<close>

definition mix_at_bounds :: mix_design where
  "mix_at_bounds =
    [(''Cemento_kg_m3'', Num 150), (''Escoria_Alto_Horno_kg_m3'', Num 300),
     (''Ceniza_Volante_kg_m3'', Num 0), (''Agua_kg_m3'', Num 220),
     (''Superplastificante_kg_m3'', Num 0), (''Agregado_Grueso_kg_m3'', Num 1100),
     (''Agregado_Fino_kg_m3'', Num 650), (''Edad_dias'', Num 365)]"

text \<open>The preset \<^verbatim>\<open>"C25 - Estructural"\<close> with the cement set to zero.\<close>

definition mix_zero_cement :: mix_design where
  "mix_zero_cement =
    [(''Cemento_kg_m3'', Num 0), (''Escoria_Alto_Horno_kg_m3'', Num 80),
     (''Ceniza_Volante_kg_m3'', Num 20), (''Agua_kg_m3'', Num 165),
     (''Superplastificante_kg_m3'', Num 4), (''Agregado_Grueso_kg_m3'', Num 975),
     (''Agregado_Fino_kg_m3'', Num 775), (''Edad_dias'', Num 28)]"

section \<open>The classifier is total and respects the band boundaries\<close>

lemma in_band_Num:
  "in_band (Num lo, Num hi) (Num x) = (lo \<le> x \<and> x < hi)"
  "in_band (Num lo, PInf) (Num x) = (lo \<le> x)"
  by (simp_all add: in_band_def)

lemma nec_triples_distinct:
  "baja_resistencia \<noteq> resistencia_normal" "baja_resistencia \<noteq> alta_resistencia"
  "baja_resistencia \<noteq> ultra_alta_resistencia" "resistencia_normal \<noteq> alta_resistencia"
  "resistencia_normal \<noteq> ultra_alta_resistencia" "alta_resistencia \<noteq> ultra_alta_resistencia"
  "sin_clasificar \<noteq> baja_resistencia" "sin_clasificar \<noteq> resistencia_normal"
  "sin_clasificar \<noteq> alta_resistencia" "sin_clasificar \<noteq> ultra_alta_resistencia"
  by (simp_all add: baja_resistencia_def resistencia_normal_def alta_resistencia_def
      ultra_alta_resistencia_def sin_clasificar_def)

lemma classify_nec_Num:
  "classify_nec (Num x) =
     (if x < 0 then sin_clasificar else if x < 210 then baja_resistencia
      else if x < 280 then resistencia_normal else if x < 420 then alta_resistencia
      else ultra_alta_resistencia)"
  by (simp add: classify_nec_def NEC_CLASSIFICATION_def in_band_Num)

lemma classify_nec_fixed_Num:
  "classify_nec_fixed (Num x) =
     (if x < 0 then sin_clasificar else if x < 140 then baja_resistencia
      else if x < 280 then resistencia_normal else if x < 420 then alta_resistencia
      else ultra_alta_resistencia)"
  by (simp add: classify_nec_fixed_def NEC_CLASSIFICATION_fixed_def in_band_Num)

text \<open>Four contiguous bands, the last one unbounded: a value from the first bound on lies in exactly one.\<close>

lemma ex1_band4:
  assumes "a \<le> b" "b \<le> c" "c \<le> d" "a \<le> x"
  shows "\<exists>!e. e \<in> set [((Num a, Num b), t1), ((Num b, Num c), t2), ((Num c, Num d), t3),
                        ((Num d, PInf), t4)] \<and> in_band (fst e) (Num x)"
proof -
  consider "x < b" | "b \<le> x" "x < c" | "c \<le> x" "x < d" | "d \<le> x"
    by linarith
  then show ?thesis
  proof cases
    case 1
    with assms show ?thesis
      by (intro ex1I[where a = "((Num a, Num b), t1)"]) (auto simp: in_band_Num)
  next
    case 2
    with assms show ?thesis
      by (intro ex1I[where a = "((Num b, Num c), t2)"]) (auto simp: in_band_Num)
  next
    case 3
    with assms show ?thesis
      by (intro ex1I[where a = "((Num c, Num d), t3)"]) (auto simp: in_band_Num)
  next
    case 4
    with assms show ?thesis
      by (intro ex1I[where a = "((Num d, PInf), t4)"]) (auto simp: in_band_Num)
  qed
qed

lemma unique_band:
  "0 \<le> x \<Longrightarrow> \<exists>!e. e \<in> set NEC_CLASSIFICATION \<and> in_band (fst e) (Num x)"
  unfolding NEC_CLASSIFICATION_def by (rule ex1_band4) simp_all

lemma unique_band_fixed:
  "0 \<le> x \<Longrightarrow> \<exists>!e. e \<in> set NEC_CLASSIFICATION_fixed \<and> in_band (fst e) (Num x)"
  unfolding NEC_CLASSIFICATION_fixed_def by (rule ex1_band4) simp_all

lemma classify_nec_returns_band:
  "\<forall>e \<in> set NEC_CLASSIFICATION. in_band (fst e) (Num x) \<longrightarrow> classify_nec (Num x) = snd e"
  by (simp add: NEC_CLASSIFICATION_def classify_nec_def in_band_Num)

lemma classify_nec_fixed_returns_band:
  "\<forall>e \<in> set NEC_CLASSIFICATION_fixed.
     in_band (fst e) (Num x) \<longrightarrow> classify_nec_fixed (Num x) = snd e"
  by (simp add: NEC_CLASSIFICATION_fixed_def classify_nec_fixed_def in_band_Num)

lemma classify_nec_lower_bounds:
  "\<forall>e \<in> set NEC_CLASSIFICATION. classify_nec (fst (fst e)) = snd e \<and>
     (\<forall>e' \<in> set NEC_CLASSIFICATION.
        snd (fst e') = fst (fst e) \<longrightarrow> classify_nec (fst (fst e)) \<noteq> snd e')"
  by (simp add: NEC_CLASSIFICATION_def classify_nec_def in_band_Num nec_triples_distinct
      nec_triples_distinct[symmetric])

lemma classify_nec_fixed_lower_bounds:
  "\<forall>e \<in> set NEC_CLASSIFICATION_fixed. classify_nec_fixed (fst (fst e)) = snd e \<and>
     (\<forall>e' \<in> set NEC_CLASSIFICATION_fixed.
        snd (fst e') = fst (fst e) \<longrightarrow> classify_nec_fixed (fst (fst e)) \<noteq> snd e')"
  by (simp add: NEC_CLASSIFICATION_fixed_def classify_nec_fixed_def in_band_Num
      nec_triples_distinct nec_triples_distinct[symmetric])

lemma classified_when_nonnegative:
  "0 \<le> x \<Longrightarrow> classify_nec (Num x) \<noteq> sin_clasificar"
  "0 \<le> x \<Longrightarrow> classify_nec_fixed (Num x) \<noteq> sin_clasificar"
  by (simp_all add: classify_nec_Num classify_nec_fixed_Num nec_triples_distinct[symmetric])

text \<open>
  Claim C2. For every finite strength \<open>x \<ge> 0\<close>, exactly one item of the band table has
  \<open>lo \<le> x < hi\<close>, the classifier returns the triple of that item and never the fallback
  triple; and the lower bound \<open>lo\<close> of each item is classified into that item, not into the
  item whose upper bound it is. This holds for the table of either handler.
\<close>

theorem classify_nec_total_boundaries:
  "0 \<le> x \<Longrightarrow>
     (\<exists>!e. e \<in> set NEC_CLASSIFICATION \<and> in_band (fst e) (Num x)) \<and>
     (\<forall>e \<in> set NEC_CLASSIFICATION. in_band (fst e) (Num x) \<longrightarrow> classify_nec (Num x) = snd e) \<and>
     classify_nec (Num x) \<noteq> sin_clasificar \<and>
     (\<forall>e \<in> set NEC_CLASSIFICATION. classify_nec (fst (fst e)) = snd e \<and>
        (\<forall>e' \<in> set NEC_CLASSIFICATION.
           snd (fst e') = fst (fst e) \<longrightarrow> classify_nec (fst (fst e)) \<noteq> snd e')) \<and>
     (\<exists>!e. e \<in> set NEC_CLASSIFICATION_fixed \<and> in_band (fst e) (Num x)) \<and>
     (\<forall>e \<in> set NEC_CLASSIFICATION_fixed.
        in_band (fst e) (Num x) \<longrightarrow> classify_nec_fixed (Num x) = snd e) \<and>
     classify_nec_fixed (Num x) \<noteq> sin_clasificar \<and>
     (\<forall>e \<in> set NEC_CLASSIFICATION_fixed. classify_nec_fixed (fst (fst e)) = snd e \<and>
        (\<forall>e' \<in> set NEC_CLASSIFICATION_fixed.
           snd (fst e') = fst (fst e) \<longrightarrow> classify_nec_fixed (fst (fst e)) \<noteq> snd e'))"
  using unique_band[of x] unique_band_fixed[of x] classify_nec_returns_band[of x]
    classify_nec_fixed_returns_band[of x] classify_nec_lower_bounds
    classify_nec_fixed_lower_bounds classified_when_nonnegative[of x]
  by (intro conjI) assumption+

theorem classify_nec_total_boundaries_witness:
  "(0::real) \<le> 210 \<and> classify_nec (Num 210) = resistencia_normal \<and>
   classify_nec (Num 210) \<noteq> baja_resistencia \<and>
   classify_nec_fixed (Num 140) = resistencia_normal"
  using classify_nec_total_boundaries[of 210]
  by (simp add: NEC_CLASSIFICATION_def NEC_CLASSIFICATION_fixed_def in_band_Num
      nec_triples_distinct[symmetric])

section \<open>The colour helper against the classifier\<close>

lemma nec_colors:
  "color_of baja_resistencia = ''#ef4444''" "color_of resistencia_normal = ''#f97316''"
  "color_of alta_resistencia = ''#22c55e''" "color_of ultra_alta_resistencia = ''#3b82f6''"
  "color_of sin_clasificar = ''#6b7280''"
  by (simp_all add: color_of_def baja_resistencia_def resistencia_normal_def alta_resistencia_def
      ultra_alta_resistencia_def sin_clasificar_def)

lemma get_nec_color_Num:
  "get_nec_color (Num x) =
     (if x < 210 then ''#ef4444'' else if x < 280 then ''#f97316''
      else if x < 420 then ''#22c55e'' else ''#3b82f6'')"
  by (simp add: get_nec_color_def)

lemma color_of_classify_nec:
  "color_of (classify_nec (Num x)) =
     (if x < 0 then ''#6b7280'' else if x < 210 then ''#ef4444''
      else if x < 280 then ''#f97316'' else if x < 420 then ''#22c55e'' else ''#3b82f6'')"
  unfolding classify_nec_Num by (simp only: nec_colors if_distrib[of color_of])

lemma lowest_color_is_not_fallback: "''#ef4444'' \<noteq> ''#6b7280''"
  by simp

text \<open>
  Claim C10. For every finite strength \<open>x \<ge> 0\<close>, \<^verbatim>\<open>get_nec_color\<close> of \<^verbatim>\<open>utils.py\<close> returns the
  colour of the triple that \<^verbatim>\<open>_classify_nec\<close> of \<^verbatim>\<open>model_handler.py\<close> returns. For \<open>x < 0\<close> they
  differ: the helper returns the colour of the lowest band, the classifier the fallback colour.
\<close>

theorem get_nec_color_refines_classify_nec:
  "(0 \<le> x \<longrightarrow> get_nec_color (Num x) = color_of (classify_nec (Num x))) \<and>
   (x < 0 \<longrightarrow> get_nec_color (Num x) = color_of baja_resistencia \<and>
              color_of (classify_nec (Num x)) = color_of sin_clasificar \<and>
              get_nec_color (Num x) \<noteq> color_of (classify_nec (Num x)))"
proof (intro conjI impI)
  assume "0 \<le> x"
  then have "\<not> x < 0" by simp
  then show "get_nec_color (Num x) = color_of (classify_nec (Num x))"
    unfolding color_of_classify_nec get_nec_color_Num by (simp only: if_False)
next
  assume neg: "x < 0"
  then have helper: "get_nec_color (Num x) = ''#ef4444''"
    unfolding get_nec_color_Num by simp
  from neg have classifier: "color_of (classify_nec (Num x)) = ''#6b7280''"
    unfolding color_of_classify_nec by (simp only: if_True)
  show "get_nec_color (Num x) = color_of baja_resistencia"
    using helper by (simp only: nec_colors)
  show "color_of (classify_nec (Num x)) = color_of sin_clasificar"
    using classifier by (simp only: nec_colors)
  show "get_nec_color (Num x) \<noteq> color_of (classify_nec (Num x))"
    unfolding helper classifier by (rule lowest_color_is_not_fallback)
qed

theorem get_nec_color_refines_classify_nec_witness:
  "(0::real) \<le> 250 \<and> get_nec_color (Num 250) = color_of (classify_nec (Num 250)) \<and>
   (- 1::real) < 0 \<and> get_nec_color (Num (- 1)) \<noteq> color_of (classify_nec (Num (- 1)))"
  using get_nec_color_refines_classify_nec[of 250] get_nec_color_refines_classify_nec[of "- 1"]
  by (simp add: nec_colors)

section \<open>Rounding and the confidence score\<close>

lemma round_half_even_floor: "\<lfloor>x\<rfloor> \<le> round_half_even x" "round_half_even x \<le> \<lfloor>x\<rfloor> + 1"
  by (simp_all add: round_half_even_def Let_def)

lemma round_half_even_of_int: "round_half_even (of_int a) = a"
  by (simp add: round_half_even_def Let_def)

lemma round_half_even_ge:
  assumes "of_int a \<le> x"
  shows "a \<le> round_half_even x"
proof -
  from assms have "a \<le> \<lfloor>x\<rfloor>" by (simp add: le_floor_iff)
  with round_half_even_floor(1)[of x] show ?thesis by linarith
qed

lemma round_half_even_le:
  assumes "x \<le> of_int b"
  shows "round_half_even x \<le> b"
proof (cases "x = of_int b")
  case True
  then show ?thesis by (simp add: round_half_even_of_int)
next
  case False
  with assms have "x < of_int b" by simp
  then have "\<lfloor>x\<rfloor> < b" by (simp add: floor_less_iff)
  with round_half_even_floor(2)[of x] show ?thesis by linarith
qed

lemma round_half_even_mono:
  assumes "x \<le> y"
  shows "round_half_even x \<le> round_half_even y"
proof (cases "\<lfloor>x\<rfloor> = \<lfloor>y\<rfloor>")
  case True
  with assms have "x - of_int \<lfloor>x\<rfloor> \<le> y - of_int \<lfloor>y\<rfloor>" by simp
  with True show ?thesis by (auto simp: round_half_even_def Let_def)
next
  case False
  with assms have "\<lfloor>x\<rfloor> < \<lfloor>y\<rfloor>" using floor_mono[OF assms] by linarith
  with round_half_even_floor(2)[of x] round_half_even_floor(1)[of y] show ?thesis by linarith
qed

lemma round_half_even_close: "\<bar>of_int (round_half_even x) - x\<bar> \<le> 1 / 2"
  by (auto simp: round_half_even_def Let_def abs_real_def) linarith+

lemma confidence_Num:
  "confidence (Num s) = Num (max (6 / 10) (min (95 / 100) (1 - s * 10)))"
  by (simp add: confidence_def py_min_def py_max_def py_sub_def max_def min_def)

lemma confidence_fixed_Num:
  "confidence_fixed (Num s) = Num (max (7 / 10) (min (95 / 100) (1 - s)))"
  by (simp add: confidence_fixed_def py_min_def py_max_def py_sub_def max_def min_def)

lemma confidence_special:
  "confidence PInf = Num (6 / 10)" "confidence NInf = Num (95 / 100)" "confidence NaN = Num (95 / 100)"
  "confidence_fixed PInf = Num (7 / 10)" "confidence_fixed NInf = Num (95 / 100)"
  "confidence_fixed NaN = Num (95 / 100)"
  by (simp_all add: confidence_def confidence_fixed_def py_min_def py_max_def py_sub_def inf_times_def)

lemma py_round3_bounds:
  assumes "of_int a / 1000 \<le> x" "x \<le> of_int b / 1000"
  shows "py_le (Num (of_int a / 1000)) (py_round (Num x) 3)"
    and "py_le (py_round (Num x) 3) (Num (of_int b / 1000))"
proof -
  from assms have "of_int a \<le> x * 1000" "x * 1000 \<le> of_int b" by simp_all
  then have "a \<le> round_half_even (x * 1000)" "round_half_even (x * 1000) \<le> b"
    by (simp_all add: round_half_even_ge round_half_even_le)
  then have "real_of_int a \<le> of_int (round_half_even (x * 1000))"
    "real_of_int (round_half_even (x * 1000)) \<le> of_int b" by simp_all
  then show "py_le (Num (of_int a / 1000)) (py_round (Num x) 3)"
    and "py_le (py_round (Num x) 3) (Num (of_int b / 1000))"
    by (simp_all add: divide_right_mono)
qed

lemma confidence_eq:
  "confidence s =
     Num (case s of Num x \<Rightarrow> max (6 / 10) (min (95 / 100) (1 - x * 10)) | PInf \<Rightarrow> 6 / 10
          | NInf \<Rightarrow> 95 / 100 | NaN \<Rightarrow> 95 / 100)"
  by (cases s) (simp_all add: confidence_Num confidence_special)

lemma confidence_fixed_eq:
  "confidence_fixed s =
     Num (case s of Num x \<Rightarrow> max (7 / 10) (min (95 / 100) (1 - x)) | PInf \<Rightarrow> 7 / 10
          | NInf \<Rightarrow> 95 / 100 | NaN \<Rightarrow> 95 / 100)"
  by (cases s) (simp_all add: confidence_fixed_Num confidence_special)

lemma confidence_cases: "\<exists>c. confidence s = Num c \<and> 6 / 10 \<le> c \<and> c \<le> 95 / 100"
proof -
  let ?c = "case s of Num x \<Rightarrow> max (6 / 10) (min (95 / 100) (1 - x * 10)) | PInf \<Rightarrow> 6 / 10
          | NInf \<Rightarrow> 95 / 100 | NaN \<Rightarrow> (95 / 100 :: real)"
  have "6 / 10 \<le> ?c \<and> ?c \<le> 95 / 100"
    by (cases s) (simp_all add: max_def min_def)
  with confidence_eq[of s] show ?thesis by blast
qed

lemma confidence_fixed_cases:
  "\<exists>c. confidence_fixed s = Num c \<and> 7 / 10 \<le> c \<and> c \<le> 95 / 100"
proof -
  let ?c = "case s of Num x \<Rightarrow> max (7 / 10) (min (95 / 100) (1 - x)) | PInf \<Rightarrow> 7 / 10
          | NInf \<Rightarrow> 95 / 100 | NaN \<Rightarrow> (95 / 100 :: real)"
  have "7 / 10 \<le> ?c \<and> ?c \<le> 95 / 100"
    by (cases s) (simp_all add: max_def min_def)
  with confidence_fixed_eq[of s] show ?thesis by blast
qed

lemma confidence_bounds:
  "py_le (Num (6 / 10)) (confidence s)" "py_le (confidence s) (Num (95 / 100))"
  "py_le (Num (6 / 10)) (py_round (confidence s) 3)"
  "py_le (py_round (confidence s) 3) (Num (95 / 100))"
proof -
  obtain c where c: "confidence s = Num c" "6 / 10 \<le> c" "c \<le> 95 / 100"
    using confidence_cases[of s] by blast
  then show "py_le (Num (6 / 10)) (confidence s)" "py_le (confidence s) (Num (95 / 100))"
    by simp_all
  from c py_round3_bounds[of 600 c 950]
  show "py_le (Num (6 / 10)) (py_round (confidence s) 3)"
    "py_le (py_round (confidence s) 3) (Num (95 / 100))"
    by simp_all
qed

lemma confidence_fixed_bounds:
  "py_le (Num (7 / 10)) (confidence_fixed s)" "py_le (confidence_fixed s) (Num (95 / 100))"
  "py_le (Num (7 / 10)) (py_round (confidence_fixed s) 3)"
  "py_le (py_round (confidence_fixed s) 3) (Num (95 / 100))"
proof -
  obtain c where c: "confidence_fixed s = Num c" "7 / 10 \<le> c" "c \<le> 95 / 100"
    using confidence_fixed_cases[of s] by blast
  then show "py_le (Num (7 / 10)) (confidence_fixed s)" "py_le (confidence_fixed s) (Num (95 / 100))"
    by simp_all
  from c py_round3_bounds[of 700 c 950]
  show "py_le (Num (7 / 10)) (py_round (confidence_fixed s) 3)"
    "py_le (py_round (confidence_fixed s) 3) (Num (95 / 100))"
    by simp_all
qed

lemma py_round_mono:
  assumes "x \<le> y"
  shows "py_le (py_round (Num x) n) (py_round (Num y) n)"
proof -
  from assms have "x * 10 ^ n \<le> y * 10 ^ n" by simp
  then have "round_half_even (x * 10 ^ n) \<le> round_half_even (y * 10 ^ n)"
    by (rule round_half_even_mono)
  then have "real_of_int (round_half_even (x * 10 ^ n)) \<le> of_int (round_half_even (y * 10 ^ n))"
    by simp
  then show ?thesis by (simp add: divide_right_mono)
qed

lemma confidence_antimono_Num:
  assumes "py_le s1 s2"
  shows "\<exists>c1 c2. confidence s1 = Num c1 \<and> confidence s2 = Num c2 \<and> c2 \<le> c1"
proof -
  let ?c = "\<lambda>s. case s of Num x \<Rightarrow> max (6 / 10) (min (95 / 100) (1 - x * 10)) | PInf \<Rightarrow> 6 / 10
          | NInf \<Rightarrow> 95 / 100 | NaN \<Rightarrow> (95 / 100 :: real)"
  from assms have "?c s2 \<le> ?c s1"
    by (cases s1; cases s2) (simp_all add: max_def min_def)
  with confidence_eq[of s1] confidence_eq[of s2] show ?thesis by blast
qed

lemma confidence_fixed_antimono_Num:
  assumes "py_le s1 s2"
  shows "\<exists>c1 c2. confidence_fixed s1 = Num c1 \<and> confidence_fixed s2 = Num c2 \<and> c2 \<le> c1"
proof -
  let ?c = "\<lambda>s. case s of Num x \<Rightarrow> max (7 / 10) (min (95 / 100) (1 - x)) | PInf \<Rightarrow> 7 / 10
          | NInf \<Rightarrow> 95 / 100 | NaN \<Rightarrow> (95 / 100 :: real)"
  from assms have "?c s2 \<le> ?c s1"
    by (cases s1; cases s2) (simp_all add: max_def min_def)
  with confidence_fixed_eq[of s1] confidence_fixed_eq[of s2] show ?thesis by blast
qed

text \<open>
  Claim C7. The confidence is decreasing in the stability: for stability values \<open>s1 \<le> s2\<close>
  (in the order of Python floats, so neither is NaN) the confidence computed for \<open>s1\<close> is at
  least the one computed for \<open>s2\<close>, for the formula of either handler, before and after the
  rounding to three decimals that the result applies.
\<close>

theorem confidence_decreasing_in_stability:
  "py_le s1 s2 \<Longrightarrow>
     py_le (confidence s2) (confidence s1) \<and>
     py_le (py_round (confidence s2) 3) (py_round (confidence s1) 3) \<and>
     py_le (confidence_fixed s2) (confidence_fixed s1) \<and>
     py_le (py_round (confidence_fixed s2) 3) (py_round (confidence_fixed s1) 3)"
proof -
  assume le: "py_le s1 s2"
  obtain c1 c2 where c: "confidence s1 = Num c1" "confidence s2 = Num c2" "c2 \<le> c1"
    using confidence_antimono_Num[OF le] by blast
  obtain d1 d2 where d: "confidence_fixed s1 = Num d1" "confidence_fixed s2 = Num d2" "d2 \<le> d1"
    using confidence_fixed_antimono_Num[OF le] by blast
  show ?thesis
    unfolding c d using c(3) d(3) py_round_mono[of c2 c1 3] py_round_mono[of d2 d1 3]
    by simp
qed

theorem confidence_decreasing_in_stability_witness:
  "py_le (Num (1 / 100)) (Num (2 / 100)) \<and>
   confidence (Num (1 / 100)) = Num (9 / 10) \<and> confidence (Num (2 / 100)) = Num (8 / 10) \<and>
   py_le (confidence (Num (2 / 100))) (confidence (Num (1 / 100)))"
  using confidence_decreasing_in_stability[of "Num (1 / 100)" "Num (2 / 100)"]
  by (simp add: confidence_Num)

section \<open>What the predictors return\<close>

lemma corrected_prediction:
  "(if py_lt (Num p) (Num 0) then py_abs (Num p) else Num p) = Num \<bar>p\<bar>"
  by simp

lemma finite_iff_Num: "\<not> isnan v \<and> \<not> isinf v \<longleftrightarrow> (\<exists>p. v = Num p)"
  by (cases v) simp_all

lemma getitem_Inr_iff: "getitem inputs k = Inr v \<longleftrightarrow> map_of inputs k = Some v"
  by (simp add: getitem_def split: option.splits)

lemma getitem_Inl_iff: "getitem inputs k = Inl e \<longleftrightarrow> map_of inputs k = None \<and> e = KeyError k"
  by (auto simp: getitem_def split: option.splits)

lemma build_result_Inr_iff:
  "build_result classify conf stability inputs prediction now = Inr r \<longleftrightarrow>
     (\<exists>ratio cem s edad.
        water_cement_ratio inputs = Inr ratio \<and> total_cementitious inputs = Inr cem \<and>
        stability = Some s \<and> map_of inputs ''Edad_dias'' = Some edad \<and>
        r = \<lparr>resistencia_predicha_kg_cm2 = np_round prediction 2,
             relacion_agua_cemento = py_round ratio 3,
             total_cementicios_kg_m3 = py_round cem 1,
             clasificacion_nec = fst (classify prediction),
             color_clasificacion = fst (snd (classify prediction)),
             descripcion_nec = snd (snd (classify prediction)),
             confianza_prediccion = py_round (conf s) 3,
             edad_ensayo_dias = edad,
             timestamp = now\<rparr>)"
  by (auto simp: build_result_def getitem_Inr_iff getitem_def split: sum.splits option.splits prod.splits)

lemma reraise_simps:
  "snd (reraise out) = snd out"
  "fst (reraise out) = fst out @ (case snd out of Inl e \<Rightarrow> [Error_en_prediccion e] | Inr r \<Rightarrow> [])"
  by (cases out; simp add: reraise_def split: sum.splits)+

lemma predict_try_Inr_iff:
  "snd (predict_try h inputs now) = Inr r \<longleftrightarrow>
     (\<exists>X p. feature_values inputs (feature_names h) = Inr X \<and>
        \<not> list_ex isnan X \<and> \<not> list_ex isinf X \<and> \<not> list_ex (\<lambda>x. py_lt x (Num 0)) X \<and>
        model_predict h X = Inr (Num p) \<and>
        build_result classify_nec confidence (estabilidad h) inputs (Num p) now = Inr r)"
proof -
  have fin: "(\<not> isnan v \<and> \<not> isinf v) = (\<exists>p. v = Num p)" for v
    by (rule finite_iff_Num)
  show ?thesis
    unfolding predict_try_def
    by (auto simp: Let_def fin split: sum.splits if_splits)
qed

lemma predict_try_fixed_Inr_iff:
  "snd (predict_try_fixed h inputs now) = Inr r \<longleftrightarrow>
     (\<exists>X p. feature_values inputs feature_names_fixed = Inr X \<and>
        model_predict h X = Inr (Num p) \<and>
        build_result classify_nec_fixed confidence_fixed (estabilidad h) inputs (Num \<bar>p\<bar>) now = Inr r)"
proof (cases "feature_values inputs feature_names_fixed")
  case (Inl e)
  then show ?thesis by (simp add: predict_try_fixed_def)
next
  case X: (Inr X)
  show ?thesis
  proof (cases "model_predict h X")
    case (Inl e)
    with X show ?thesis by (simp add: predict_try_fixed_def)
  next
    case raw: (Inr raw)
    show ?thesis
    proof (cases raw)
      case (Num p)
      with X raw show ?thesis
        unfolding predict_try_fixed_def
        by (simp add: Let_def corrected_prediction del: py_abs.simps py_lt.simps split: sum.splits)
    qed (use X raw in \<open>simp_all add: predict_try_fixed_def\<close>)
  qed
qed

lemma predict_strength_Inr_iff:
  "snd (predict_strength h inputs now) = Inr r \<longleftrightarrow>
     is_loaded h \<and> fst (validate_inputs h inputs) \<and> snd (predict_try h inputs now) = Inr r"
  by (auto simp: predict_strength_def reraise_simps split: prod.splits)

lemma predict_strength_fixed_Inr_iff:
  "snd (predict_strength_fixed h inputs now) = Inr r \<longleftrightarrow>
     is_loaded h \<and> snd (predict_try_fixed h inputs now) = Inr r"
  by (auto simp: predict_strength_fixed_def reraise_simps Let_def split: prod.splits)

text \<open>
  Claim C6. Whatever stability value the metadata supplies (zero, arbitrarily large, infinite
  or NaN), the confidence lies between the lower clamp bound (0.6 in \<^verbatim>\<open>model_handler.py\<close>, 0.7
  in \<^verbatim>\<open>model_handler_fixed.py\<close>) and 0.95, both inclusive; and so does the rounded score
  in every result that \<^verbatim>\<open>predict_strength\<close> returns.
\<close>

theorem confidence_within_clamp_bounds:
  "py_le (Num (6 / 10)) (confidence s) \<and> py_le (confidence s) (Num (95 / 100)) \<and>
   py_le (Num (7 / 10)) (confidence_fixed s) \<and> py_le (confidence_fixed s) (Num (95 / 100)) \<and>
   (snd (predict_strength h inputs now) = Inr r \<longrightarrow>
      py_le (Num (6 / 10)) (confianza_prediccion r) \<and>
      py_le (confianza_prediccion r) (Num (95 / 100))) \<and>
   (snd (predict_strength_fixed hf inputs now) = Inr r' \<longrightarrow>
      py_le (Num (7 / 10)) (confianza_prediccion r') \<and>
      py_le (confianza_prediccion r') (Num (95 / 100)))"
proof (intro conjI impI)
  show "py_le (Num (6 / 10)) (confidence s)" "py_le (confidence s) (Num (95 / 100))"
    by (rule confidence_bounds)+
  show "py_le (Num (7 / 10)) (confidence_fixed s)" "py_le (confidence_fixed s) (Num (95 / 100))"
    by (rule confidence_fixed_bounds)+
next
  assume "snd (predict_strength h inputs now) = Inr r"
  then obtain s' where "confianza_prediccion r = py_round (confidence s') 3"
    unfolding predict_strength_Inr_iff predict_try_Inr_iff build_result_Inr_iff by auto
  then show "py_le (Num (6 / 10)) (confianza_prediccion r)"
    "py_le (confianza_prediccion r) (Num (95 / 100))"
    by (simp_all only: confidence_bounds)
next
  assume "snd (predict_strength_fixed hf inputs now) = Inr r'"
  then obtain s' where "confianza_prediccion r' = py_round (confidence_fixed s') 3"
    unfolding predict_strength_fixed_Inr_iff predict_try_fixed_Inr_iff build_result_Inr_iff by auto
  then show "py_le (Num (7 / 10)) (confianza_prediccion r')"
    "py_le (confianza_prediccion r') (Num (95 / 100))"
    by (simp_all only: confidence_fixed_bounds)
qed

lemmas eval_defs = preset_C25_def constant_artifact_def constant_artifact_fixed_def
  predict_strength_def validate_inputs_def predict_try_def
  predict_strength_fixed_def validate_inputs_fixed_def predict_try_fixed_def
  build_result_def water_cement_ratio_def total_cementitious_def getitem_def contains_def
  feature_names_fixed_def VALID_RANGES_def VALID_RANGES_fixed_def reraise_def
  classify_nec_def NEC_CLASSIFICATION_def classify_nec_fixed_def NEC_CLASSIFICATION_fixed_def
  in_band_def confidence_def confidence_fixed_def py_min_def py_max_def py_sub_def
  round_half_even_def overflow_threshold_def Let_def inf_times_def baja_resistencia_def resistencia_normal_def
  alta_resistencia_def ultra_alta_resistencia_def sin_clasificar_def

theorem confidence_within_clamp_bounds_witness:
  "(\<exists>r. snd (predict_strength (constant_artifact (Num 300) (Num 1000)) preset_C25 ''t'') = Inr r \<and>
        confianza_prediccion r = Num (6 / 10) \<and>
        py_le (Num (6 / 10)) (confianza_prediccion r) \<and>
        py_le (confianza_prediccion r) (Num (95 / 100))) \<and>
   (\<exists>r. snd (predict_strength_fixed (constant_artifact_fixed (Num 300) (Num 0)) preset_C25 ''t'') = Inr r \<and>
        confianza_prediccion r = Num (95 / 100) \<and>
        py_le (Num (7 / 10)) (confianza_prediccion r) \<and>
        py_le (confianza_prediccion r) (Num (95 / 100))) \<and>
   py_le (Num (6 / 10)) (confidence NaN) \<and> py_le (confidence PInf) (Num (95 / 100))"
proof -
  obtain r where r:
    "snd (predict_strength (constant_artifact (Num 300) (Num 1000)) preset_C25 ''t'') = Inr r"
    "confianza_prediccion r = Num (6 / 10)"
    by (simp add: eval_defs)
  obtain r' where r':
    "snd (predict_strength_fixed (constant_artifact_fixed (Num 300) (Num 0)) preset_C25 ''t'') = Inr r'"
    "confianza_prediccion r' = Num (95 / 100)"
    by (simp add: eval_defs)
  from r r'
    confidence_within_clamp_bounds[of NaN "constant_artifact (Num 300) (Num 1000)" preset_C25 "''t''" r
      "constant_artifact_fixed (Num 300) (Num 0)" r']
    confidence_within_clamp_bounds[of PInf]
  show ?thesis by blast
qed

section \<open>Properties of the validator\<close>

lemma check_missing_eq:
  "check_missing features inputs errors =
     errors @ map Falta_la_variable (filter (\<lambda>f. \<not> contains inputs f) features)"
  by (induction features arbitrary: errors) simp_all

lemma check_ranges_eq:
  "check_ranges ranges items errors = errors @ concat (map (range_violation ranges) items)"
proof (induction items arbitrary: errors)
  case Nil
  then show ?case by simp
next
  case (Cons item items)
  obtain feature v where item: "item = (feature, v)" by (cases item)
  show ?case
    unfolding item check_ranges.simps Cons.IH
    by (simp add: range_violation_def[of ranges "(feature, v)"] split: option.splits)
qed

lemma check_ranges_fixed_eq:
  "check_ranges_fixed ranges items errors =
     errors @ concat (map (range_violation_fixed ranges) items)"
proof (induction items arbitrary: errors)
  case Nil
  then show ?case by simp
next
  case (Cons item items)
  obtain feature v where item: "item = (feature, v)" by (cases item)
  show ?case
    unfolding item check_ranges_fixed.simps Cons.IH
    by (simp add: range_violation_fixed_def[of ranges "(feature, v)"] extended_min_def
        extended_max_def Let_def split: option.splits)
qed

lemma validate_inputs_eq:
  "validate_inputs h inputs =
     (let errors = map Falta_la_variable (filter (\<lambda>f. \<not> contains inputs f) (feature_names h)) @
                   concat (map (range_violation VALID_RANGES) inputs)
      in (errors = [], errors))"
  by (simp add: validate_inputs_def check_ranges_eq check_missing_eq Let_def)

lemma validate_inputs_fixed_eq:
  "validate_inputs_fixed inputs =
     (let errors = map Falta_la_variable (filter (\<lambda>f. \<not> contains inputs f) feature_names_fixed) @
                   concat (map (range_violation_fixed VALID_RANGES_fixed) inputs)
      in (errors = [], errors))"
  by (simp add: validate_inputs_fixed_def check_ranges_fixed_eq check_missing_eq Let_def)

lemma range_violation_feature:
  "e \<in> set (range_violation ranges item) \<Longrightarrow> violation_feature e = fst item"
  by (auto simp: range_violation_def split: option.splits if_splits)

lemma range_violation_fixed_feature:
  "e \<in> set (range_violation_fixed ranges item) \<Longrightarrow> violation_feature e = fst item"
  by (auto simp: range_violation_fixed_def split: option.splits if_splits)

lemma subseq_concat_features:
  assumes "\<And>item. length (g item) \<le> 1"
    and "\<And>item e. e \<in> set (g item) \<Longrightarrow> violation_feature e = fst item"
  shows "subseq (map violation_feature (concat (map g items))) (map fst items)"
proof (induction items)
  case Nil
  then show ?case by simp
next
  case (Cons item items)
  show ?case
  proof (cases "g item")
    case Nil
    with Cons.IH show ?thesis by (simp add: list_emb_Cons)
  next
    case (Cons e es)
    with assms(1)[of item] have es: "es = []" by simp
    from Cons assms(2)[of e item] have "violation_feature e = fst item" by simp
    with Cons es Cons.IH show ?thesis by (simp add: subseq_Cons2)
  qed
qed

lemma range_violation_length: "length (range_violation ranges item) \<le> 1"
  by (simp add: range_violation_def split: option.splits)

lemma range_violation_fixed_length: "length (range_violation_fixed ranges item) \<le> 1"
  by (simp add: range_violation_fixed_def split: option.splits)

text \<open>
  Claim C5, as amended. The violations are not listed in the canonical order of the feature
  names throughout. Both validators list the missing features first, in the order of the
  feature names; the range violations follow, one for each offending item, in the order in
  which the items appear in the caller's mapping.
\<close>

theorem violations_missing_first_then_input_order:
  "snd (validate_inputs h inputs) =
     map Falta_la_variable (filter (\<lambda>f. \<not> contains inputs f) (feature_names h)) @
     concat (map (range_violation VALID_RANGES) inputs) \<and>
   subseq (map violation_feature
            (map Falta_la_variable (filter (\<lambda>f. \<not> contains inputs f) (feature_names h))))
     (feature_names h) \<and>
   subseq (map violation_feature (concat (map (range_violation VALID_RANGES) inputs)))
     (map fst inputs) \<and>
   snd (validate_inputs_fixed inputs) =
     map Falta_la_variable (filter (\<lambda>f. \<not> contains inputs f) feature_names_fixed) @
     concat (map (range_violation_fixed VALID_RANGES_fixed) inputs) \<and>
   subseq (map violation_feature
            (map Falta_la_variable (filter (\<lambda>f. \<not> contains inputs f) feature_names_fixed)))
     feature_names_fixed \<and>
   subseq (map violation_feature (concat (map (range_violation_fixed VALID_RANGES_fixed) inputs)))
     (map fst inputs)"
proof -
  have missing: "map (violation_feature \<circ> Falta_la_variable) fs = fs" for fs
    by (induction fs) simp_all
  have "subseq (map violation_feature (concat (map (range_violation VALID_RANGES) inputs)))
     (map fst inputs)"
    by (rule subseq_concat_features[OF range_violation_length range_violation_feature])
  moreover have "subseq (map violation_feature
      (concat (map (range_violation_fixed VALID_RANGES_fixed) inputs))) (map fst inputs)"
    by (rule subseq_concat_features[OF range_violation_fixed_length
          range_violation_fixed_feature])
  ultimately show ?thesis
    by (simp add: validate_inputs_eq validate_inputs_fixed_eq Let_def missing)
qed

lemmas validator_eval = validate_inputs_def validate_inputs_fixed_def constant_artifact_def
  feature_names_fixed_def VALID_RANGES_def VALID_RANGES_fixed_def contains_def Let_def
  py_max_def py_sub_def in_canonical_order_def mix_reordered_def

text \<open>
  A mix entered in another order with two values out of range: the two violations come in the
  order of the mapping (water, then cement), against the canonical order (cement first).
\<close>

theorem violations_canonical_order_counterexample:
  "snd (validate_inputs (constant_artifact (Num 300) (Num 0)) mix_reordered) =
     [Fuera_del_rango_valido ''Agua_kg_m3'' (Num 300) (Num 130) (Num 220),
      Fuera_del_rango_valido ''Cemento_kg_m3'' (Num 600) (Num 150) (Num 500)] \<and>
   \<not> in_canonical_order (feature_names (constant_artifact (Num 300) (Num 0)))
       (snd (validate_inputs (constant_artifact (Num 300) (Num 0)) mix_reordered)) \<and>
   \<not> in_canonical_order feature_names_fixed (snd (validate_inputs_fixed mix_reordered))"
  by (simp add: validator_eval)

lemma valid_ranges_bounds:
  "map_of VALID_RANGES f = Some (lo, hi) \<Longrightarrow> py_le lo lo \<and> py_le lo hi \<and> py_le hi hi"
  by (auto simp: VALID_RANGES_def split: if_splits)

lemma range_violation_at_bound:
  assumes "\<forall>lo hi. map_of VALID_RANGES (fst item) = Some (lo, hi) \<longrightarrow> snd item = lo \<or> snd item = hi"
  shows "range_violation VALID_RANGES item = []"
proof (cases "map_of VALID_RANGES (fst item)")
  case None
  then show ?thesis by (simp add: range_violation_def)
next
  case (Some bounds)
  obtain lo hi where bounds: "bounds = (lo, hi)" by (cases bounds)
  from Some bounds assms have "snd item = lo \<or> snd item = hi" by simp
  with valid_ranges_bounds[of "fst item" lo hi] Some bounds show ?thesis
    by (auto simp: range_violation_def)
qed

text \<open>
  Claim C3. In \<^verbatim>\<open>model_handler.py\<close>, the strict validator: a mix that lacks a required feature
  is invalid; a mix that contains every required feature and has every ranged field exactly
  at its minimum or its maximum is valid, with no violation (the bounds are inclusive).
\<close>

theorem strict_validation_missing_and_boundaries:
  "(feature \<in> set (feature_names h) \<and> \<not> contains inputs feature \<longrightarrow>
      fst (validate_inputs h inputs) = False) \<and>
   ((\<forall>f \<in> set (feature_names h). contains inputs f) \<and>
    (\<forall>item \<in> set inputs. \<forall>lo hi.
        map_of VALID_RANGES (fst item) = Some (lo, hi) \<longrightarrow> snd item = lo \<or> snd item = hi) \<longrightarrow>
      validate_inputs h inputs = (True, []))"
proof (intro conjI impI)
  assume "feature \<in> set (feature_names h) \<and> \<not> contains inputs feature"
  then have "feature \<in> set (filter (\<lambda>f. \<not> contains inputs f) (feature_names h))" by simp
  then have "filter (\<lambda>f. \<not> contains inputs f) (feature_names h) \<noteq> []"
    by (metis empty_iff empty_set)
  then show "fst (validate_inputs h inputs) = False"
    by (simp add: validate_inputs_eq Let_def)
next
  assume a: "(\<forall>f \<in> set (feature_names h). contains inputs f) \<and>
    (\<forall>item \<in> set inputs. \<forall>lo hi.
        map_of VALID_RANGES (fst item) = Some (lo, hi) \<longrightarrow> snd item = lo \<or> snd item = hi)"
  then have "filter (\<lambda>f. \<not> contains inputs f) (feature_names h) = []"
    by (simp add: filter_empty_conv)
  moreover from a have "\<forall>item \<in> set inputs. range_violation VALID_RANGES item = []"
    using range_violation_at_bound by blast
  then have "concat (map (range_violation VALID_RANGES) inputs) = []" by simp
  ultimately show "validate_inputs h inputs = (True, [])"
    by (simp add: validate_inputs_eq Let_def)
qed

theorem strict_validation_missing_and_boundaries_witness:
  "validate_inputs (constant_artifact (Num 300) (Num 0)) mix_at_bounds = (True, []) \<and>
   ''Cemento_kg_m3'' \<in> set (feature_names (constant_artifact (Num 300) (Num 0))) \<and>
   \<not> contains (tl mix_at_bounds) ''Cemento_kg_m3'' \<and>
   fst (validate_inputs (constant_artifact (Num 300) (Num 0)) (tl mix_at_bounds)) = False"
proof -
  have present: "\<forall>f \<in> set (feature_names (constant_artifact (Num 300) (Num 0))). contains mix_at_bounds f"
    by (simp add: constant_artifact_def feature_names_fixed_def contains_def mix_at_bounds_def)
  have at_bounds: "\<forall>item \<in> set mix_at_bounds. \<forall>lo hi.
       map_of VALID_RANGES (fst item) = Some (lo, hi) \<longrightarrow> snd item = lo \<or> snd item = hi"
    by (simp add: mix_at_bounds_def VALID_RANGES_def)
  have missing: "''Cemento_kg_m3'' \<in> set (feature_names (constant_artifact (Num 300) (Num 0))) \<and>
      \<not> contains (tl mix_at_bounds) ''Cemento_kg_m3''"
    by (simp add: constant_artifact_def feature_names_fixed_def contains_def mix_at_bounds_def)
  from present at_bounds missing
    strict_validation_missing_and_boundaries[of _ "constant_artifact (Num 300) (Num 0)" mix_at_bounds]
    strict_validation_missing_and_boundaries[of "''Cemento_kg_m3''"
      "constant_artifact (Num 300) (Num 0)" "tl mix_at_bounds"]
  show ?thesis by blast
qed

section \<open>Repeated predictions\<close>

lemma build_result_now:
  "build_result classify conf stability inputs prediction now2 =
     map_sum id (timestamp_update (\<lambda>_. now2))
       (build_result classify conf stability inputs prediction now1)"
  by (simp add: build_result_def split: sum.splits option.splits prod.splits)

lemma reraise_map_sum:
  "reraise (logs, map_sum id g out) =
     (fst (reraise (logs, out)), map_sum id g (snd (reraise (logs, out))))"
  by (cases out) (simp_all add: reraise_def)

lemma predict_try_now:
  "predict_try h inputs now2 =
     (fst (predict_try h inputs now1),
      map_sum id (timestamp_update (\<lambda>_. now2)) (snd (predict_try h inputs now1)))"
  unfolding predict_try_def build_result_now[of _ _ _ _ _ now2 now1]
  by (simp add: Let_def split: sum.splits)

lemma predict_try_fixed_now:
  "predict_try_fixed h inputs now2 =
     (fst (predict_try_fixed h inputs now1),
      map_sum id (timestamp_update (\<lambda>_. now2)) (snd (predict_try_fixed h inputs now1)))"
  unfolding predict_try_fixed_def build_result_now[of _ _ _ _ _ now2 now1]
  by (simp add: Let_def split: sum.splits)

lemma build_result_timestamp:
  "build_result classify conf stability inputs prediction now = Inr r \<Longrightarrow> timestamp r = now"
  by (auto simp: build_result_Inr_iff)

text \<open>
  Claim C4, as amended. Two predictions of the same mix against the same handler log the same
  records and raise the same exception or return the same result in every field but one: the
  field \<^verbatim>\<open>timestamp\<close> holds the time of the call. The artifact is a function of the feature
  vector here, so a random artifact is outside this statement.
\<close>

theorem predictions_identical_except_timestamp:
  "fst (predict_strength h inputs now2) = fst (predict_strength h inputs now1) \<and>
   snd (predict_strength h inputs now2) =
     map_sum id (timestamp_update (\<lambda>_. now2)) (snd (predict_strength h inputs now1)) \<and>
   (\<forall>r. snd (predict_strength h inputs now1) = Inr r \<longrightarrow> timestamp r = now1) \<and>
   fst (predict_strength_fixed hf inputs now2) = fst (predict_strength_fixed hf inputs now1) \<and>
   snd (predict_strength_fixed hf inputs now2) =
     map_sum id (timestamp_update (\<lambda>_. now2)) (snd (predict_strength_fixed hf inputs now1)) \<and>
   (\<forall>r. snd (predict_strength_fixed hf inputs now1) = Inr r \<longrightarrow> timestamp r = now1)"
proof (intro conjI allI impI)
  have strict: "predict_strength h inputs now2 =
     (fst (predict_strength h inputs now1),
      map_sum id (timestamp_update (\<lambda>_. now2)) (snd (predict_strength h inputs now1)))"
    unfolding predict_strength_def
    by (subst predict_try_now[of h inputs now2 now1])
      (simp add: reraise_map_sum split: prod.splits)
  show "fst (predict_strength h inputs now2) = fst (predict_strength h inputs now1)"
    by (subst strict) simp
  show "snd (predict_strength h inputs now2) =
     map_sum id (timestamp_update (\<lambda>_. now2)) (snd (predict_strength h inputs now1))"
    by (subst strict) simp
  have fixed: "predict_strength_fixed hf inputs now2 =
     (fst (predict_strength_fixed hf inputs now1),
      map_sum id (timestamp_update (\<lambda>_. now2)) (snd (predict_strength_fixed hf inputs now1)))"
    unfolding predict_strength_fixed_def
    by (subst predict_try_fixed_now[of hf inputs now2 now1])
      (simp add: reraise_map_sum Let_def split: prod.splits)
  show "fst (predict_strength_fixed hf inputs now2) = fst (predict_strength_fixed hf inputs now1)"
    by (subst fixed) simp
  show "snd (predict_strength_fixed hf inputs now2) =
     map_sum id (timestamp_update (\<lambda>_. now2)) (snd (predict_strength_fixed hf inputs now1))"
    by (subst fixed) simp
next
  fix r
  assume "snd (predict_strength h inputs now1) = Inr r"
  then show "timestamp r = now1"
    unfolding predict_strength_Inr_iff predict_try_Inr_iff
    by (auto dest: build_result_timestamp)
next
  fix r
  assume "snd (predict_strength_fixed hf inputs now1) = Inr r"
  then show "timestamp r = now1"
    unfolding predict_strength_fixed_Inr_iff predict_try_fixed_Inr_iff
    by (auto dest: build_result_timestamp)
qed

theorem predictions_identical_except_timestamp_witness:
  "\<exists>r. snd (predict_strength (constant_artifact (Num 300) (Num (1 / 100))) preset_C25
            ''2024-05-01T10:00:00.000001'') = Inr r \<and>
       timestamp r = ''2024-05-01T10:00:00.000001'' \<and>
       snd (predict_strength (constant_artifact (Num 300) (Num (1 / 100))) preset_C25
            ''2024-05-01T10:00:00.000002'') = Inr (r\<lparr>timestamp := ''2024-05-01T10:00:00.000002''\<rparr>)"
proof -
  obtain r where r: "snd (predict_strength (constant_artifact (Num 300) (Num (1 / 100))) preset_C25
            ''2024-05-01T10:00:00.000001'') = Inr r"
    by (simp add: eval_defs)
  with predictions_identical_except_timestamp[of "constant_artifact (Num 300) (Num (1 / 100))"
      preset_C25 "''2024-05-01T10:00:00.000002''" "''2024-05-01T10:00:00.000001''"]
  show ?thesis by simp
qed

text \<open>Two calls one microsecond apart return different records.\<close>

theorem predictions_identical_counterexample:
  "snd (predict_strength (constant_artifact (Num 300) (Num (1 / 100))) preset_C25
        ''2024-05-01T10:00:00.000001'') \<noteq>
   snd (predict_strength (constant_artifact (Num 300) (Num (1 / 100))) preset_C25
        ''2024-05-01T10:00:00.000002'') \<and>
   snd (predict_strength_fixed (constant_artifact_fixed (Num 300) (Num (1 / 100))) preset_C25
        ''2024-05-01T10:00:00.000001'') \<noteq>
   snd (predict_strength_fixed (constant_artifact_fixed (Num 300) (Num (1 / 100))) preset_C25
        ''2024-05-01T10:00:00.000002'')"
  by (simp add: eval_defs)

section \<open>Zero cement\<close>

lemma water_cement_ratio_zero_cement:
  assumes "map_of inputs ''Cemento_kg_m3'' = Some (Num 0)"
  shows "water_cement_ratio inputs =
     (if contains inputs ''Agua_kg_m3'' then Inl ZeroDivisionError
      else Inl (KeyError ''Agua_kg_m3''))"
  using assms by (simp add: water_cement_ratio_def getitem_def contains_def split: option.splits)

lemma build_result_zero_cement:
  assumes "map_of inputs ''Cemento_kg_m3'' = Some (Num 0)"
  shows "build_result classify conf stability inputs prediction now =
     (if contains inputs ''Agua_kg_m3'' then Inl ZeroDivisionError
      else Inl (KeyError ''Agua_kg_m3''))"
  by (simp add: build_result_def water_cement_ratio_zero_cement[OF assms])

lemma feature_values_contains:
  "feature_values inputs features = Inr X \<Longrightarrow> f \<in> set features \<Longrightarrow> contains inputs f"
  by (induction features arbitrary: X)
    (auto simp: getitem_def contains_def split: option.splits sum.splits)

lemma agua_is_a_feature: "''Agua_kg_m3'' \<in> set feature_names_fixed"
  by (simp add: feature_names_fixed_def)

lemma strict_validator_rejects_zero_cement:
  assumes "map_of inputs ''Cemento_kg_m3'' = Some (Num 0)"
  shows "\<not> fst (validate_inputs h inputs)"
proof -
  from assms have "(''Cemento_kg_m3'', Num 0) \<in> set inputs" by (rule map_of_SomeD)
  moreover have "range_violation VALID_RANGES (''Cemento_kg_m3'', Num 0) \<noteq> []"
    by (simp add: range_violation_def VALID_RANGES_def)
  ultimately have "concat (map (range_violation VALID_RANGES) inputs) \<noteq> []"
    by (auto simp: concat_eq_Nil_conv)
  then show ?thesis by (simp add: validate_inputs_eq Let_def)
qed

text \<open>
  In \<^verbatim>\<open>model_handler.py\<close> a zero cement never reaches the division: it is below the minimum
  of 150, and the invalid inputs raise \<^verbatim>\<open>ValueError\<close> before the \<^verbatim>\<open>try\<close>.
\<close>

lemma strict_handler_raises_value_error:
  assumes "map_of inputs ''Cemento_kg_m3'' = Some (Num 0)" "is_loaded h"
  shows "predict_strength h inputs now =
     ([], Inl (ValueError_inputs_invalidos (snd (validate_inputs h inputs))))"
proof -
  obtain ok errors where v: "validate_inputs h inputs = (ok, errors)"
    by (cases "validate_inputs h inputs")
  with strict_validator_rejects_zero_cement[OF assms(1), of h] have "\<not> ok" by simp
  with v assms(2) show ?thesis by (simp add: predict_strength_def)
qed

text \<open>The helper of \<^verbatim>\<open>utils.py\<close>, which is not on the prediction path, answers 0.\<close>

lemma calculate_water_cement_ratio_zero:
  "calculate_water_cement_ratio water (Num 0) = ([Warning_division_por_cero], Inr (Num 0))"
  by (simp add: calculate_water_cement_ratio_def)

text \<open>
  Claim C8. With cement = 0 in the input, the expression that both handlers compute the ratio
  with raises \<^verbatim>\<open>ZeroDivisionError\<close> (the water being present); \<^verbatim>\<open>predict_strength\<close> of
  \<^verbatim>\<open>model_handler_fixed.py\<close>, once the handler is loaded, the feature vector built and the
  prediction finite, logs that error and raises it; and no handler returns a result for such
  an input, so none reports a ratio of 0.
\<close>

theorem zero_cement_division_by_zero:
  "map_of inputs ''Cemento_kg_m3'' = Some (Num 0) \<Longrightarrow>
     (contains inputs ''Agua_kg_m3'' \<longrightarrow> water_cement_ratio inputs = Inl ZeroDivisionError) \<and>
     (is_loaded hf \<and> feature_values inputs feature_names_fixed = Inr X \<and>
      model_predict hf X = Inr (Num p) \<longrightarrow>
        snd (predict_strength_fixed hf inputs now) = Inl ZeroDivisionError \<and>
        Error_en_prediccion ZeroDivisionError \<in> set (fst (predict_strength_fixed hf inputs now))) \<and>
     (\<forall>r. snd (predict_strength_fixed hf inputs now) \<noteq> Inr r) \<and>
     (\<forall>r. snd (predict_strength h inputs now) \<noteq> Inr r)"
proof (intro conjI impI allI)
  assume zero: "map_of inputs ''Cemento_kg_m3'' = Some (Num 0)"
  {
    assume "contains inputs ''Agua_kg_m3''"
    then show "water_cement_ratio inputs = Inl ZeroDivisionError"
      by (simp add: water_cement_ratio_zero_cement[OF zero])
  }
  {
    assume reached: "is_loaded hf \<and> feature_values inputs feature_names_fixed = Inr X \<and>
      model_predict hf X = Inr (Num p)"
    then have agua: "contains inputs ''Agua_kg_m3''"
      using feature_values_contains agua_is_a_feature by blast
    have raised: "snd (predict_try_fixed hf inputs now) = Inl ZeroDivisionError"
      using reached agua
      by (simp add: predict_try_fixed_def Let_def build_result_zero_cement[OF zero]
          del: py_abs.simps py_lt.simps)
    with reached show "snd (predict_strength_fixed hf inputs now) = Inl ZeroDivisionError"
      by (simp add: predict_strength_fixed_def reraise_simps Let_def split: prod.splits)
    from raised reached
    show "Error_en_prediccion ZeroDivisionError \<in> set (fst (predict_strength_fixed hf inputs now))"
      by (simp add: predict_strength_fixed_def reraise_simps Let_def split: prod.splits)
  }
  {
    fix r
    show "snd (predict_strength_fixed hf inputs now) \<noteq> Inr r"
      unfolding predict_strength_fixed_Inr_iff predict_try_fixed_Inr_iff
      by (simp add: build_result_zero_cement[OF zero])
  }
  {
    fix r
    show "snd (predict_strength h inputs now) \<noteq> Inr r"
      unfolding predict_strength_Inr_iff
      using strict_validator_rejects_zero_cement[OF zero, of h] by simp
  }
qed

theorem zero_cement_division_by_zero_witness:
  "map_of mix_zero_cement ''Cemento_kg_m3'' = Some (Num 0) \<and>
   contains mix_zero_cement ''Agua_kg_m3'' \<and>
   water_cement_ratio mix_zero_cement = Inl ZeroDivisionError \<and>
   snd (predict_strength_fixed (constant_artifact_fixed (Num 300) (Num (1 / 100))) mix_zero_cement ''t'')
     = Inl ZeroDivisionError"
proof -
  have zero: "map_of mix_zero_cement ''Cemento_kg_m3'' = Some (Num 0)"
    and agua: "contains mix_zero_cement ''Agua_kg_m3''"
    by (simp_all add: mix_zero_cement_def contains_def)
  have reached: "is_loaded (constant_artifact_fixed (Num 300) (Num (1 / 100))) \<and>
    feature_values mix_zero_cement feature_names_fixed =
      Inr [Num 0, Num 80, Num 20, Num 165, Num 4, Num 975, Num 775, Num 28] \<and>
    model_predict (constant_artifact_fixed (Num 300) (Num (1 / 100)))
      [Num 0, Num 80, Num 20, Num 165, Num 4, Num 975, Num 775, Num 28] = Inr (Num 300)"
    by (simp add: mix_zero_cement_def constant_artifact_fixed_def feature_names_fixed_def getitem_def)
  from zero agua reached
    zero_cement_division_by_zero[OF zero, of "constant_artifact_fixed (Num 300) (Num (1 / 100))"
      "[Num 0, Num 80, Num 20, Num 165, Num 4, Num 975, Num 775, Num 28]" 300 "''t''"]
  show ?thesis by blast
qed

section \<open>Negative predictions\<close>

lemma overflow_threshold_pos: "0 < overflow_threshold"
  by (simp add: overflow_threshold_def)

lemma np_round_nonneg:
  assumes "0 \<le> x"
  shows "py_le (Num 0) (np_round (Num x) n)"
proof -
  from assms have nn: "0 \<le> x * 10 ^ n" by simp
  with overflow_threshold_pos have "\<not> x * 10 ^ n \<le> - overflow_threshold" by linarith
  moreover from nn have "0 \<le> round_half_even (x * 10 ^ n)"
    using round_half_even_ge[of 0 "x * 10 ^ n"] by simp
  ultimately show ?thesis by simp
qed

lemma np_round2_negative:
  assumes "p \<le> - 1 / 100"
  shows "py_lt (np_round (Num p) 2) (Num 0)"
proof -
  from assms have small: "p * 100 \<le> of_int (- 1)" by simp
  then have "round_half_even (p * 100) \<le> - 1" by (rule round_half_even_le)
  then have "real_of_int (round_half_even (p * 100)) < 0" by simp
  moreover from small overflow_threshold_pos have "\<not> overflow_threshold \<le> p * 100" by simp
  ultimately show ?thesis by (simp add: divide_neg_pos)
qed

lemma np_round2_close:
  assumes "\<bar>x\<bar> * 100 < overflow_threshold"
  shows "\<exists>q. np_round (Num x) 2 = Num q \<and> \<bar>q - x\<bar> \<le> 1 / 200 + (1 + \<bar>x\<bar>) / 10 ^ 15"
proof -
  have "\<bar>of_int (round_half_even (x * 100)) - x * 100\<bar> \<le> 1 / 2"
    by (rule round_half_even_close)
  then have "\<bar>of_int (round_half_even (x * 100)) / 100 - x\<bar> \<le> 1 / 200"
    by (simp add: abs_le_iff field_simps)
  moreover have "0 \<le> (1 + \<bar>x\<bar>) / 10 ^ 15" by simp
  ultimately have close: "\<bar>of_int (round_half_even (x * 100)) / 100 - x\<bar>
      \<le> 1 / 200 + (1 + \<bar>x\<bar>) / 10 ^ 15"
    by linarith
  from assms have "\<not> overflow_threshold \<le> x * 100" "\<not> x * 100 \<le> - overflow_threshold"
    by (simp_all add: abs_real_def split: if_splits)
  then have "np_round (Num x) 2 = Num (of_int (round_half_even (x * 100)) / 100)" by simp
  with close show ?thesis by blast
qed

lemma predict_try_fixed_Num:
  assumes "feature_values inputs feature_names_fixed = Inr X" "model_predict h X = Inr (Num p)"
  shows "predict_try_fixed h inputs now =
     (case build_result classify_nec_fixed confidence_fixed (estabilidad h) inputs (Num \<bar>p\<bar>) now of
        Inl e \<Rightarrow> (if p < 0 then [Warning_prediccion_negativa_corregida (Num \<bar>p\<bar>)] else [], Inl e)
      | Inr result \<Rightarrow>
          ((if p < 0 then [Warning_prediccion_negativa_corregida (Num \<bar>p\<bar>)] else []) @
             [Info_prediccion_exitosa (Num \<bar>p\<bar>)], Inr result))"
proof (cases "p < 0")
  case True
  then have abs: "\<bar>p\<bar> = - p" by simp
  from True assms show ?thesis
    unfolding predict_try_fixed_def abs by (simp add: Let_def)
next
  case False
  then have abs: "\<bar>p\<bar> = p" by simp
  from False assms show ?thesis
    unfolding predict_try_fixed_def abs by (simp add: Let_def)
qed

lemma predict_try_Num:
  assumes "feature_values inputs (feature_names h) = Inr X" "model_predict h X = Inr (Num p)"
    and "\<not> list_ex isnan X" "\<not> list_ex isinf X" "\<not> list_ex (\<lambda>x. py_lt x (Num 0)) X"
  shows "predict_try h inputs now =
     (case build_result classify_nec confidence (estabilidad h) inputs (Num p) now of
        Inl e \<Rightarrow> (if \<not> (5 \<le> p \<and> p \<le> 1000) then [Warning_prediccion_fuera_de_rango (Num p)] else [],
                  Inl e)
      | Inr result \<Rightarrow>
          ((if \<not> (5 \<le> p \<and> p \<le> 1000) then [Warning_prediccion_fuera_de_rango (Num p)] else []) @
             [Info_prediccion_exitosa (Num p)], Inr result))"
  using assms unfolding predict_try_def
  by (simp add: Let_def split: sum.splits)

lemma build_result_strength:
  "build_result classify conf stability inputs prediction now = Inr r \<Longrightarrow>
     resistencia_predicha_kg_cm2 r = np_round prediction 2"
  by (auto simp: build_result_Inr_iff)

lemma build_result_class:
  "build_result classify conf stability inputs prediction now = Inr r \<Longrightarrow>
     clasificacion_nec r = fst (classify prediction)"
  by (auto simp: build_result_Inr_iff)

text \<open>The log of a call that returns a result.\<close>

lemma predict_strength_log:
  assumes "snd (predict_strength h inputs now) = Inr r"
    and "feature_values inputs (feature_names h) = Inr X" "model_predict h X = Inr (Num p)"
  shows "fst (predict_strength h inputs now) =
     (if p < 5 \<or> 1000 < p then [Warning_prediccion_fuera_de_rango (Num p)] else []) @
       [Info_prediccion_exitosa (Num p)]"
proof -
  from assms(1) obtain X' p' where Xp: "feature_values inputs (feature_names h) = Inr X'"
    "model_predict h X' = Inr (Num p')"
    and checks: "\<not> list_ex isnan X'" "\<not> list_ex isinf X'" "\<not> list_ex (\<lambda>x. py_lt x (Num 0)) X'"
    and r: "build_result classify_nec confidence (estabilidad h) inputs (Num p') now = Inr r"
    unfolding predict_strength_Inr_iff predict_try_Inr_iff by blast
  from Xp assms(2,3) have same: "X' = X" "p' = p" by simp_all
  from assms(1) have ok: "is_loaded h" "fst (validate_inputs h inputs)"
    unfolding predict_strength_Inr_iff by simp_all
  obtain errors where "validate_inputs h inputs = (True, errors)"
    using ok(2) by (cases "validate_inputs h inputs") simp
  with r ok(1) same show ?thesis
    by (auto simp: predict_strength_def predict_try_Num[OF Xp checks] reraise_def)
qed

lemma predict_strength_fixed_log:
  assumes "snd (predict_strength_fixed hf inputs now) = Inr r"
    and "feature_values inputs feature_names_fixed = Inr X" "model_predict hf X = Inr (Num p)"
  shows "fst (predict_strength_fixed hf inputs now) =
     (if \<not> fst (validate_inputs_fixed inputs)
      then [Warning_inputs_con_advertencias (snd (validate_inputs_fixed inputs))] else []) @
     (if p < 0 then [Warning_prediccion_negativa_corregida (Num \<bar>p\<bar>)] else []) @
       [Info_prediccion_exitosa (Num \<bar>p\<bar>)]"
proof -
  from assms have r: "build_result classify_nec_fixed confidence_fixed (estabilidad hf) inputs (Num \<bar>p\<bar>) now = Inr r"
    unfolding predict_strength_fixed_Inr_iff predict_try_fixed_Inr_iff by auto
  from assms(1) have loaded: "is_loaded hf" unfolding predict_strength_fixed_Inr_iff by simp
  obtain ok errors where "validate_inputs_fixed inputs = (ok, errors)"
    by (cases "validate_inputs_fixed inputs")
  with r loaded show ?thesis
    by (simp add: predict_strength_fixed_def predict_try_fixed_Num[OF assms(2,3)] reraise_def Let_def)
qed

text \<open>
  Claim C9, as amended. Only \<^verbatim>\<open>model_handler_fixed.py\<close> corrects a negative prediction. Every
  result it returns has a strength that is not negative. When the artifact's prediction for
  the feature vector is the finite \<open>p\<close>, the strength is \<open>|p|\<close> rounded to two decimals: unless
  \<open>100 |p|\<close> overflows, it is a finite number within \<open>0.005 + (1 + |p|) / 10\<^sup>1\<^sup>5\<close> of \<open>|p|\<close>; the
  class is the one of \<open>|p|\<close>; and a correction is logged exactly when \<open>p < 0\<close>, with \<open>|p|\<close>.
  \<^verbatim>\<open>model_handler.py\<close> returns the prediction rounded as it is: unless \<open>100 |p|\<close> overflows, the
  strength is a finite number within the same distance of \<open>p\<close>; from \<open>p = -0.01\<close> downwards it
  is negative; the class is the one of \<open>p\<close>; the warning that the prediction is out of the
  normal range is logged exactly when \<open>p < 5\<close> or \<open>p > 1000\<close>, with \<open>p\<close>; and no correction is
  ever logged.
\<close>

theorem negative_prediction_corrected_by_fixed_handler_only:
  "(snd (predict_strength_fixed hf inputs now) = Inr r \<longrightarrow>
      py_le (Num 0) (resistencia_predicha_kg_cm2 r) \<and>
      (\<forall>X p. feature_values inputs feature_names_fixed = Inr X \<and> model_predict hf X = Inr (Num p) \<longrightarrow>
         (\<bar>p\<bar> * 100 < overflow_threshold \<longrightarrow>
            (\<exists>q. resistencia_predicha_kg_cm2 r = Num q \<and>
                 \<bar>q - \<bar>p\<bar>\<bar> \<le> 1 / 200 + (1 + \<bar>p\<bar>) / 10 ^ 15)) \<and>
         clasificacion_nec r = fst (classify_nec_fixed (Num \<bar>p\<bar>)) \<and>
         (\<forall>q. Warning_prediccion_negativa_corregida q
                 \<in> set (fst (predict_strength_fixed hf inputs now)) \<longleftrightarrow>
               p < 0 \<and> q = Num \<bar>p\<bar>))) \<and>
   (snd (predict_strength h inputs now) = Inr r' \<longrightarrow>
      (\<forall>X p. feature_values inputs (feature_names h) = Inr X \<and> model_predict h X = Inr (Num p) \<longrightarrow>
         (\<bar>p\<bar> * 100 < overflow_threshold \<longrightarrow>
            (\<exists>q. resistencia_predicha_kg_cm2 r' = Num q \<and>
                 \<bar>q - p\<bar> \<le> 1 / 200 + (1 + \<bar>p\<bar>) / 10 ^ 15)) \<and>
         (p \<le> - 1 / 100 \<longrightarrow> py_lt (resistencia_predicha_kg_cm2 r') (Num 0)) \<and>
         clasificacion_nec r' = fst (classify_nec (Num p)) \<and>
         (\<forall>q. Warning_prediccion_fuera_de_rango q
                 \<in> set (fst (predict_strength h inputs now)) \<longleftrightarrow>
               (p < 5 \<or> 1000 < p) \<and> q = Num p) \<and>
         (\<forall>q. Warning_prediccion_negativa_corregida q
                 \<notin> set (fst (predict_strength h inputs now)))))"
proof (intro conjI impI allI)
  assume ret: "snd (predict_strength_fixed hf inputs now) = Inr r"
  then obtain X p where Xp: "feature_values inputs feature_names_fixed = Inr X"
    "model_predict hf X = Inr (Num p)"
    and r: "build_result classify_nec_fixed confidence_fixed (estabilidad hf) inputs (Num \<bar>p\<bar>) now = Inr r"
    unfolding predict_strength_fixed_Inr_iff predict_try_fixed_Inr_iff by blast
  from build_result_strength[OF r] show "py_le (Num 0) (resistencia_predicha_kg_cm2 r)"
    by (simp only: np_round_nonneg[OF abs_ge_zero])
  fix X' p'
  assume "feature_values inputs feature_names_fixed = Inr X' \<and> model_predict hf X' = Inr (Num p')"
  with Xp have same: "X' = X" "p' = p" by simp_all
  show "clasificacion_nec r = fst (classify_nec_fixed (Num \<bar>p'\<bar>))"
    using build_result_class[OF r] same by simp
  {
    fix q
    show "Warning_prediccion_negativa_corregida q
            \<in> set (fst (predict_strength_fixed hf inputs now)) \<longleftrightarrow> p' < 0 \<and> q = Num \<bar>p'\<bar>"
      unfolding same predict_strength_fixed_log[OF ret Xp] by auto
  }
  assume "\<bar>p'\<bar> * 100 < overflow_threshold"
  then have "\<bar>\<bar>p\<bar>\<bar> * 100 < overflow_threshold" using same by simp
  from np_round2_close[OF this] build_result_strength[OF r] same
  show "\<exists>q. resistencia_predicha_kg_cm2 r = Num q \<and>
           \<bar>q - \<bar>p'\<bar>\<bar> \<le> 1 / 200 + (1 + \<bar>p'\<bar>) / 10 ^ 15"
    by simp
next
  fix X' p'
  assume ret: "snd (predict_strength h inputs now) = Inr r'"
    and Xp': "feature_values inputs (feature_names h) = Inr X' \<and> model_predict h X' = Inr (Num p')"
  from ret obtain X p where Xp: "feature_values inputs (feature_names h) = Inr X"
    "model_predict h X = Inr (Num p)"
    and r: "build_result classify_nec confidence (estabilidad h) inputs (Num p) now = Inr r'"
    unfolding predict_strength_Inr_iff predict_try_Inr_iff by blast
  from Xp Xp' have same: "X' = X" "p' = p" by simp_all
  from build_result_strength[OF r] same
  have strength: "resistencia_predicha_kg_cm2 r' = np_round (Num p') 2" by simp
  show "clasificacion_nec r' = fst (classify_nec (Num p'))"
    using build_result_class[OF r] same by simp
  {
    fix q
    show "Warning_prediccion_fuera_de_rango q \<in> set (fst (predict_strength h inputs now)) \<longleftrightarrow>
            (p' < 5 \<or> 1000 < p') \<and> q = Num p'"
      unfolding same predict_strength_log[OF ret Xp] by auto
    show "Warning_prediccion_negativa_corregida q \<notin> set (fst (predict_strength h inputs now))"
      unfolding predict_strength_log[OF ret Xp] by simp
  }
  {
    assume "p' \<le> - 1 / 100"
    then show "py_lt (resistencia_predicha_kg_cm2 r') (Num 0)"
      unfolding strength by (rule np_round2_negative)
  }
  assume "\<bar>p'\<bar> * 100 < overflow_threshold"
  from np_round2_close[OF this] strength
  show "\<exists>q. resistencia_predicha_kg_cm2 r' = Num q \<and>
           \<bar>q - p'\<bar> \<le> 1 / 200 + (1 + \<bar>p'\<bar>) / 10 ^ 15"
    by simp
qed

theorem negative_prediction_corrected_by_fixed_handler_only_witness:
  "(\<exists>r. snd (predict_strength_fixed (constant_artifact_fixed (Num (- 5)) (Num (1 / 100)))
             preset_C25 ''t'') = Inr r \<and>
        py_le (Num 0) (resistencia_predicha_kg_cm2 r) \<and>
        (\<exists>q. resistencia_predicha_kg_cm2 r = Num q \<and> \<bar>q - 5\<bar> \<le> 1 / 200 + (1 + 5) / 10 ^ 15) \<and>
        clasificacion_nec r = fst (classify_nec_fixed (Num 5))) \<and>
   Warning_prediccion_negativa_corregida (Num 5)
     \<in> set (fst (predict_strength_fixed (constant_artifact_fixed (Num (- 5)) (Num (1 / 100)))
                  preset_C25 ''t'')) \<and>
   (\<exists>r. snd (predict_strength (constant_artifact (Num (- 5)) (Num (1 / 100)))
             preset_C25 ''t'') = Inr r \<and>
        py_lt (resistencia_predicha_kg_cm2 r) (Num 0) \<and>
        (\<exists>q. resistencia_predicha_kg_cm2 r = Num q \<and> \<bar>q - (- 5)\<bar> \<le> 1 / 200 + (1 + 5) / 10 ^ 15) \<and>
        clasificacion_nec r = fst (classify_nec (Num (- 5)))) \<and>
   Warning_prediccion_fuera_de_rango (Num (- 5))
     \<in> set (fst (predict_strength (constant_artifact (Num (- 5)) (Num (1 / 100)))
                  preset_C25 ''t'')) \<and>
   Warning_prediccion_negativa_corregida (Num 5)
     \<notin> set (fst (predict_strength (constant_artifact (Num (- 5)) (Num (1 / 100)))
                  preset_C25 ''t''))"
proof -
  let ?hf = "constant_artifact_fixed (Num (- 5)) (Num (1 / 100))"
  let ?h = "constant_artifact (Num (- 5)) (Num (1 / 100))"
  let ?X = "[Num 320, Num 80, Num 20, Num 165, Num 4, Num 975, Num 775, Num 28]"
  obtain r where r: "snd (predict_strength_fixed ?hf preset_C25 ''t'') = Inr r"
    by (simp add: eval_defs)
  obtain r' where r': "snd (predict_strength ?h preset_C25 ''t'') = Inr r'"
    by (simp add: eval_defs)
  have X: "feature_values preset_C25 feature_names_fixed = Inr ?X \<and>
      model_predict ?hf ?X = Inr (Num (- 5))"
    "feature_values preset_C25 (feature_names ?h) = Inr ?X \<and>
      model_predict ?h ?X = Inr (Num (- 5))"
    by (simp_all add: preset_C25_def constant_artifact_def constant_artifact_fixed_def
        feature_names_fixed_def getitem_def)
  have small: "\<bar>- 5 :: real\<bar> * 100 < overflow_threshold" "(- 5 :: real) \<le> - 1 / 100"
    "(- 5 :: real) < 0" "(- 5 :: real) < 5" "\<bar>- 5 :: real\<bar> = 5"
    by (simp_all add: overflow_threshold_def)
  note inst = negative_prediction_corrected_by_fixed_handler_only[of ?hf preset_C25 "''t''" r ?h r']
  note fixed = inst[THEN conjunct1, THEN mp, OF r]
  note fixed_p = fixed[THEN conjunct2, THEN spec, THEN spec, THEN mp, OF X(1)]
  note strict_p = inst[THEN conjunct2, THEN mp, OF r', THEN spec, THEN spec, THEN mp, OF X(2)]
  have a1: "py_le (Num 0) (resistencia_predicha_kg_cm2 r)"
    by (rule fixed[THEN conjunct1])
  have a2: "\<exists>q. resistencia_predicha_kg_cm2 r = Num q \<and> \<bar>q - 5\<bar> \<le> 1 / 200 + (1 + 5) / 10 ^ 15"
    using fixed_p[THEN conjunct1, THEN mp, OF small(1)] by simp
  have a3: "clasificacion_nec r = fst (classify_nec_fixed (Num 5))"
    using fixed_p[THEN conjunct2, THEN conjunct1] by simp
  have a4: "Warning_prediccion_negativa_corregida (Num 5)
          \<in> set (fst (predict_strength_fixed ?hf preset_C25 ''t''))"
    using fixed_p[THEN conjunct2, THEN conjunct2, THEN spec, of "Num 5"] by simp
  have b1: "py_lt (resistencia_predicha_kg_cm2 r') (Num 0)"
    by (rule strict_p[THEN conjunct2, THEN conjunct1, THEN mp, OF small(2)])
  have b2: "\<exists>q. resistencia_predicha_kg_cm2 r' = Num q \<and> \<bar>q - (- 5)\<bar> \<le> 1 / 200 + (1 + 5) / 10 ^ 15"
    using strict_p[THEN conjunct1, THEN mp, OF small(1)] by simp
  have b3: "clasificacion_nec r' = fst (classify_nec (Num (- 5)))"
    by (rule strict_p[THEN conjunct2, THEN conjunct2, THEN conjunct1])
  have b4: "Warning_prediccion_fuera_de_rango (Num (- 5))
          \<in> set (fst (predict_strength ?h preset_C25 ''t''))"
    using strict_p[THEN conjunct2, THEN conjunct2, THEN conjunct2, THEN conjunct1, THEN spec,
        of "Num (- 5)"] by simp
  have b5: "Warning_prediccion_negativa_corregida (Num 5)
          \<notin> set (fst (predict_strength ?h preset_C25 ''t''))"
    by (rule strict_p[THEN conjunct2, THEN conjunct2, THEN conjunct2, THEN conjunct2, THEN spec])
  from r a1 a2 a3 have a: "\<exists>r. snd (predict_strength_fixed ?hf preset_C25 ''t'') = Inr r \<and>
        py_le (Num 0) (resistencia_predicha_kg_cm2 r) \<and>
        (\<exists>q. resistencia_predicha_kg_cm2 r = Num q \<and> \<bar>q - 5\<bar> \<le> 1 / 200 + (1 + 5) / 10 ^ 15) \<and>
        clasificacion_nec r = fst (classify_nec_fixed (Num 5))"
    by (intro exI[of _ r] conjI)
  from r' b1 b2 b3 have b: "\<exists>r. snd (predict_strength ?h preset_C25 ''t'') = Inr r \<and>
        py_lt (resistencia_predicha_kg_cm2 r) (Num 0) \<and>
        (\<exists>q. resistencia_predicha_kg_cm2 r = Num q \<and> \<bar>q - (- 5)\<bar> \<le> 1 / 200 + (1 + 5) / 10 ^ 15) \<and>
        clasificacion_nec r = fst (classify_nec (Num (- 5)))"
    by (intro exI[of _ r'] conjI)
  from a a4 b b4 b5 show ?thesis by (intro conjI)
qed

text \<open>
  \<^verbatim>\<open>model_handler.py\<close> with an artifact that predicts \<open>-5\<close> for the preset: the log has the
  range warning and no correction, and the result carries the strength \<open>-5\<close> and no class.
\<close>

theorem negative_prediction_counterexample:
  "fst (predict_strength (constant_artifact (Num (- 5)) (Num (1 / 100))) preset_C25 ''t'') =
     [Warning_prediccion_fuera_de_rango (Num (- 5)), Info_prediccion_exitosa (Num (- 5))] \<and>
   (\<exists>r. snd (predict_strength (constant_artifact (Num (- 5)) (Num (1 / 100))) preset_C25 ''t'')
          = Inr r \<and>
        resistencia_predicha_kg_cm2 r = Num (- 5) \<and>
        py_lt (resistencia_predicha_kg_cm2 r) (Num 0) \<and>
        clasificacion_nec r = ''Sin Clasificar'')"
  by (simp add: eval_defs)

section \<open>The prediction for a valid mix\<close>

























end
